theory Spec2Isabelle
  imports Complex_Main
begin

section \<open>GreenSupply AI: the dashboard controller (frontend/script.js)\<close>

text \<open>
  The controller keeps its state in module-level variables (\<open>truckData\<close>,
  \<open>alertsList\<close>, \<open>chartData\<close>, \<open>totalAlertCount\<close>) and in the page. Each handler
  is modelled as a function from the state before to the state in which it is left; for a
  handler that can be left by an exception, a second function tells whether it is. A JSON
  number is a
  \<open>rat\<close> (every finite double is one; the rounding of double arithmetic is not
  modelled, and no property below depends on a computed average). An optional property of
  a JSON object is an \<open>option\<close>, \<open>None\<close> standing for \<open>undefined\<close>. A string that the
  script only compares with \<open>===\<close>, uses as a key or displays is a \<open>string\<close>; the text
  of the question field and of the chat, which \<open>trim\<close> inspects character by character,
  is a \<open>js_string\<close>, the list of its UTF-16 code units. The clock read by
  \<open>new Date()\<close> is an argument (the formatted time label), and so is the formatter of a
  history timestamp.

  Of the page, the model keeps the elements the properties below speak about (the alert
  badge, the total-alerts statistic, the risk gauge, the marker colours, the temperature
  doughnut, the chat and the AI badge). Writes to other elements (KPI tiles, fleet list,
  alert cards, system log, truck detail panel) are never read back by a handler and are
  left out; every element the script looks up is taken to exist.
\<close>

subsection \<open>Text\<close>

text \<open>A JavaScript string as the list of its UTF-16 code units (numbers below 65536).\<close>

type_synonym js_string = "nat list"

text \<open>The code units of an ASCII literal of the script.\<close>

definition ascii :: "string \<Rightarrow> js_string" where
  "ascii cs = map of_char cs"

subsection \<open>Wire records\<close>

record truck =
  truck_id :: string
  origin :: string
  destination :: string
  latitude :: rat
  longitude :: rat
  speed :: rat
  temperature :: rat
  fuel_level :: rat
  engine_load :: rat
  driver :: string
  driver_license :: string
  eta_minutes :: "rat option"
  remaining_distance_miles :: "rat option"
  risk_level :: "string option"
  explanation :: "string option"

record alert =
  a_truck_id :: string
  severity :: string
  title :: string
  message :: string
  ai_insight :: "string option"
  timestamp :: "string option"

record kpi_rec =
  active_trucks :: rat
  on_time_pct :: rat
  delayed :: rat
  high_risk :: rat

record fleet_risk_rec =
  overall_score :: rat
  overall_level :: "string option"
  high_risk_count :: rat

record fleet_stats_rec =
  avg_fleet_speed :: rat
  urban_avg_speed :: "rat option"
  interstate_avg_speed :: "rat option"

text \<open>A history entry \<open>{timestamp, avg_eta | avg_speed | risk_score}\<close>: the timestamp
  and the one value its array carries.\<close>

type_synonym history_entry = "string \<times> rat"

text \<open>The object a message parses to. One record stands for all message types, as one
  JavaScript object does; a handler reads the properties of its own type. \<open>mtype\<close> is
  the property \<open>type\<close>; a parsed value with no such property (a number, a string, an
  array, an object without it) has \<open>mtype = None\<close>. The properties are typed as the
  wire format types them: \<open>trucks\<close> is an array in the messages whose handlers read it
  (elsewhere it is not read and is \<open>[]\<close> here), a number is a number or missing, never
  \<open>null\<close>. Under this typing the one exception a handler can throw once it has read
  \<open>data.type\<close> is that of \<open>updateMapMarkers\<close>, modelled below.\<close>

record wsdata =
  mtype :: "string option"
  trucks :: "truck list"
  alerts :: "alert list option"
  kpi :: "kpi_rec option"
  fleet_risk :: "fleet_risk_rec option"
  fleet_stats :: "fleet_stats_rec option"
  eta_history :: "history_entry list option"
  speed_history :: "history_entry list option"
  risk_history :: "history_entry list option"
  response :: "js_string option"
  token_usage :: "rat option"
  max_tokens :: "rat option"
  source :: "string option"

text \<open>What \<open>JSON.parse\<close> gives: \<open>null\<close> (reading a property of it throws) or a value
  whose properties can be read.\<close>

datatype json_top = JNull | JObj wsdata

datatype ws_event = Unparsable | Parsed json_top

datatype exn = SyntaxError | TypeError

subsection \<open>Client state\<close>

text \<open>A chart sample \<open>{t, v}\<close>: time label and value.\<close>

type_synonym sample = "string \<times> rat"

record client =
  truckData :: "(string \<times> truck) list"
  alertsList :: "alert list"
  mapMarkers :: "(string \<times> string) list"
  chartData_eta :: "sample list"
  chartData_speed :: "sample list"
  chartData_risk :: "sample list"
  totalAlertCount :: nat
  tempCompliance_data :: "nat list"
  risk_score_value :: "int option"
  risk_badge_class :: "string option"
  risk_circle_color :: "string option"
  stat_total_alerts :: "nat option"
  alert_count_badge :: "nat option"
  ai_input :: js_string
  chat_messages :: "(string \<times> js_string \<times> string) list"
  typing_indicators :: nat
  token_used :: "rat option"
  token_bar_fill :: "rat option"
  ai_source_badge :: "string option"

text \<open>The state when the script has loaded: the \<open>let\<close> initialisers, the doughnut's
  data set by \<open>initCharts\<close>, and page elements not yet written by the script
  (\<open>None\<close>).\<close>

definition init_state :: client where
  "init_state = \<lparr>truckData = [], alertsList = [], mapMarkers = [],
     chartData_eta = [], chartData_speed = [], chartData_risk = [],
     totalAlertCount = 0, tempCompliance_data = [80, 15, 5],
     risk_score_value = None, risk_badge_class = None, risk_circle_color = None,
     stat_total_alerts = None, alert_count_badge = None,
     ai_input = [], chat_messages = [], typing_indicators = 0,
     token_used = None, token_bar_fill = None, ai_source_badge = None\<rparr>"

subsection \<open>Objects used as tables\<close>

text \<open>\<open>obj[k] = x\<close> on an object used as a table: an existing key keeps its place, a
  new key goes last (the order \<open>Object.values\<close> enumerates string keys that are not
  array indices; truck ids such as \<open>TRK-001\<close> are of that kind). Two tables are the
  same table when \<open>map_of\<close> of them is the same map: same keys, same value per key.\<close>

fun upsert :: "'k \<Rightarrow> 'v \<Rightarrow> ('k \<times> 'v) list \<Rightarrow> ('k \<times> 'v) list" where
  "upsert k x [] = [(k, x)]"
| "upsert k x (p # ps) = (if fst p = k then (k, x) # ps else p # upsert k x ps)"

text \<open>The tables \<open>truckData\<close> and \<open>mapMarkers\<close> are plain objects (\<open>{}\<close>), so they
  inherit the members of \<open>Object.prototype\<close>. Reading one of these names from a table
  that has no such key of its own gives the inherited member, which is truthy; assigning
  an object to \<open>__proto__\<close> sets the prototype and creates no key.\<close>

definition object_prototype_members :: "string list" where
  "object_prototype_members =
     [''constructor'', ''__defineGetter__'', ''__defineSetter__'', ''hasOwnProperty'',
      ''__lookupGetter__'', ''__lookupSetter__'', ''isPrototypeOf'',
      ''propertyIsEnumerable'', ''toString'', ''valueOf'', ''__proto__'',
      ''toLocaleString'']"

definition is_prototype_member :: "string \<Rightarrow> bool" where
  "is_prototype_member k = (k \<in> set object_prototype_members)"

text \<open>\<open>truckData[t.truck_id] = t\<close>: for the id \<open>__proto__\<close> the truck becomes the
  prototype of the table and the table's own keys are unchanged (the inherited
  properties of a truck are writable data properties, so later assignments still create
  keys of the table's own).\<close>

definition storeTruck :: "truck \<Rightarrow> (string \<times> truck) list \<Rightarrow> (string \<times> truck) list" where
  "storeTruck t td = (if truck_id t = ''__proto__'' then td else upsert (truck_id t) t td)"

text \<open>\<open>trucks.forEach(t => { truckData[t.truck_id] = t; })\<close>\<close>

definition storeTrucks :: "truck list \<Rightarrow> (string \<times> truck) list \<Rightarrow> (string \<times> truck) list" where
  "storeTrucks ts td = foldl (\<lambda>acc t. storeTruck t acc) td ts"

text \<open>The keys that storing a trucks array creates or overwrites.\<close>

definition stored_ids :: "truck list \<Rightarrow> string set" where
  "stored_ids ts = truck_id ` set ts - {''__proto__''}"

subsection \<open>Numbers and arrays\<close>

text \<open>\<open>Math.round\<close>: the nearest integer, a half going up.\<close>

definition js_round :: "rat \<Rightarrow> int" where
  "js_round x = \<lfloor>x + 1 / 2\<rfloor>"

text \<open>\<open>x || 0\<close> on an optional number.\<close>

definition or0 :: "rat option \<Rightarrow> rat" where
  "or0 x = (case x of None \<Rightarrow> 0 | Some y \<Rightarrow> y)"

text \<open>\<open>if (a.length > 30) a.shift()\<close>\<close>

definition shift_over30 :: "'a list \<Rightarrow> 'a list" where
  "shift_over30 xs = (if length xs > 30 then tl xs else xs)"

text \<open>\<open>a.slice(-n)\<close>: the last \<open>n\<close> elements, all of them when there are fewer.\<close>

definition slice_last :: "nat \<Rightarrow> 'a list \<Rightarrow> 'a list" where
  "slice_last n xs = drop (length xs - n) xs"

subsection \<open>Maps and gauge\<close>

definition getMarkerColor :: "string option \<Rightarrow> string" where
  "getMarkerColor riskLevel =
     (if riskLevel = Some ''CRITICAL'' then ''#ef4444''
      else if riskLevel = Some ''HIGH'' then ''#f97316''
      else if riskLevel = Some ''MEDIUM'' then ''#eab308''
      else ''#3cf91a'')"

text \<open>\<open>updateMapMarkers\<close>: each truck's marker takes the colour of its risk level (the
  marker's position and popup are left out). For a truck whose id names a member of
  \<open>Object.prototype\<close>, \<open>mapMarkers[id]\<close> is that member, the test \<open>if (mapMarkers[id])\<close>
  succeeds and \<open>mapMarkers[id].setLatLng(...)\<close> throws a TypeError: the loop ends there,
  with the markers of the trucks before it updated. \<open>updateMapMarkers\<close> is the state in
  which the function is left, \<open>updateMapMarkers_throws\<close> tells whether it is left by the
  exception.\<close>

definition updateMapMarkers_throws :: "truck list \<Rightarrow> bool" where
  "updateMapMarkers_throws ts = list_ex (\<lambda>t. is_prototype_member (truck_id t)) ts"

definition updateMapMarkers :: "truck list \<Rightarrow> client \<Rightarrow> client" where
  "updateMapMarkers ts s =
     s\<lparr>mapMarkers := foldl (\<lambda>acc t. upsert (truck_id t) (getMarkerColor (risk_level t)) acc)
                         (mapMarkers s)
                         (takeWhile (\<lambda>t. \<not> is_prototype_member (truck_id t)) ts)\<rparr>"

definition updateRiskGauge :: "fleet_risk_rec option \<Rightarrow> client \<Rightarrow> client" where
  "updateRiskGauge risk s =
     (case risk of
        None \<Rightarrow> s
      | Some r \<Rightarrow>
          (let level = overall_level r in
           s\<lparr>risk_score_value := Some (js_round (overall_score r)),
             risk_badge_class := Some (''card-badge '' @
               (if level = Some ''LOW'' then ''badge-low''
                else if level = Some ''MEDIUM'' then ''badge-medium''
                else if level = Some ''HIGH'' then ''badge-high''
                else ''badge-critical'')),
             risk_circle_color := Some
               (if level = Some ''LOW'' then ''#3cf91a''
                else if level = Some ''MEDIUM'' then ''#eab308''
                else if level = Some ''HIGH'' then ''#f97316''
                else ''#ef4444'')\<rparr>))"

subsection \<open>Charts\<close>

definition temp_compliant :: "truck \<Rightarrow> bool" where
  "temp_compliant t = (temperature t \<ge> 28 \<and> temperature t \<le> 38)"

definition temp_warning :: "truck \<Rightarrow> bool" where
  "temp_warning t =
     ((temperature t < 28 \<and> temperature t \<ge> 25) \<or> (temperature t > 38 \<and> temperature t \<le> 42))"

definition temp_critical :: "truck \<Rightarrow> bool" where
  "temp_critical t = (temperature t < 25 \<or> temperature t > 42)"

text \<open>The data of the temperature doughnut: \<open>[compliant || 1, warning, critical]\<close>.\<close>

definition tempComplianceOf :: "truck list \<Rightarrow> nat list" where
  "tempComplianceOf ts =
     (let compliant = length (filter temp_compliant ts);
          warning = length (filter temp_warning ts);
          critical = length (filter temp_critical ts)
      in [if compliant = 0 then 1 else compliant, warning, critical])"

text \<open>\<open>trucks.length ? trucks.reduce((s, t) => s + (t.eta_minutes || 0), 0) / trucks.length : 0\<close>\<close>

definition avgEta :: "truck list \<Rightarrow> rat" where
  "avgEta ts =
     (if length ts \<noteq> 0
      then sum_list (map (\<lambda>t. or0 (eta_minutes t)) ts) / of_nat (length ts)
      else 0)"

definition updateCharts :: "string \<Rightarrow> wsdata \<Rightarrow> client \<Rightarrow> client" where
  "updateCharts timeLabel data s =
     (let ts = map snd (truckData s);
          avgSpeed = (case fleet_stats data of Some fs \<Rightarrow> avg_fleet_speed fs | None \<Rightarrow> 0);
          riskScore = (case fleet_risk data of Some fr \<Rightarrow> overall_score fr | None \<Rightarrow> 0)
      in s\<lparr>chartData_eta := shift_over30 (chartData_eta s @ [(timeLabel, of_int (js_round (avgEta ts)))]),
           chartData_speed := shift_over30 (chartData_speed s @ [(timeLabel, avgSpeed)]),
           chartData_risk := shift_over30 (chartData_risk s @ [(timeLabel, riskScore)]),
           tempCompliance_data := tempComplianceOf ts\<rparr>)"

text \<open>The colour of the temperature bar in the truck detail panel.\<close>

definition detailTempBarColor :: "truck \<Rightarrow> string" where
  "detailTempBarColor t =
     (if temperature t > 38 then ''red'' else if temperature t < 28 then ''yellow'' else ''cyan'')"

subsection \<open>Stream handlers\<close>

definition updateAnalyticsStats :: "client \<Rightarrow> client" where
  "updateAnalyticsStats s = s\<lparr>stat_total_alerts := Some (totalAlertCount s)\<rparr>"

text \<open>\<open>data.eta_history.forEach(h => chartData.eta.push({t: fmt(h.timestamp), v: ...}))\<close>
  under \<open>if (data.eta_history)\<close>; \<open>val\<close> is what is stored of the entry's value.\<close>

definition loadHistory ::
  "(string \<Rightarrow> string) \<Rightarrow> (rat \<Rightarrow> rat) \<Rightarrow> history_entry list option \<Rightarrow> sample list \<Rightarrow> sample list" where
  "loadHistory fmt val hist buf =
     (case hist of
        None \<Rightarrow> buf
      | Some hs \<Rightarrow> buf @ map (\<lambda>h. (fmt (fst h), val (snd h))) hs)"

text \<open>The number of entries of an optional history array.\<close>

definition histlen :: "history_entry list option \<Rightarrow> nat" where
  "histlen h = (case h of None \<Rightarrow> 0 | Some hs \<Rightarrow> length hs)"

text \<open>\<open>handleInitialState\<close> is the state in which the handler is left, by its end or
  by the exception of \<open>updateMapMarkers\<close>, which skips everything after that call;
  \<open>handleInitialState_throws\<close> tells which.\<close>

definition handleInitialState_throws :: "wsdata \<Rightarrow> bool" where
  "handleInitialState_throws data = updateMapMarkers_throws (trucks data)"

definition handleInitialState :: "(string \<Rightarrow> string) \<Rightarrow> string \<Rightarrow> wsdata \<Rightarrow> client \<Rightarrow> client" where
  "handleInitialState fmt timeLabel data s =
     (let s1 = s\<lparr>truckData := storeTrucks (trucks data) (truckData s),
                 alertsList := (case alerts data of Some as \<Rightarrow> as | None \<Rightarrow> [])\<rparr>;
          s2 = updateMapMarkers (trucks data) s1
      in if updateMapMarkers_throws (trucks data) then s2
         else
           (let s3 = updateRiskGauge (fleet_risk data) s2;
                s4 = updateAnalyticsStats s3;
                s5 = s4\<lparr>chartData_eta :=
                           loadHistory fmt (\<lambda>x. of_int (js_round x)) (eta_history data) (chartData_eta s4),
                         chartData_speed :=
                           loadHistory fmt (\<lambda>x. x) (speed_history data) (chartData_speed s4),
                         chartData_risk :=
                           loadHistory fmt (\<lambda>x. x) (risk_history data) (chartData_risk s4)\<rparr>
            in updateCharts timeLabel data s5))"

text \<open>The alerts of an update that are appended: none when the property is missing or
  the array is empty.\<close>

definition newAlerts :: "wsdata \<Rightarrow> alert list" where
  "newAlerts data = (case alerts data of None \<Rightarrow> [] | Some as \<Rightarrow> as)"

text \<open>The block under \<open>if (data.alerts && data.alerts.length > 0)\<close>: push, cut
  to the last 200, count.\<close>

definition addNewAlerts :: "wsdata \<Rightarrow> client \<Rightarrow> client" where
  "addNewAlerts data s =
     (case alerts data of
        None \<Rightarrow> s
      | Some as \<Rightarrow>
          if length as > 0
          then s\<lparr>alertsList := (if length (alertsList s @ as) > 200
                                  then slice_last 200 (alertsList s @ as)
                                  else alertsList s @ as),
                 totalAlertCount := totalAlertCount s + length as\<rparr>
          else s)"

text \<open>\<open>handleStreamUpdate\<close> is the state in which the handler is left, by its end or
  by the exception of \<open>updateMapMarkers\<close>; \<open>handleStreamUpdate_throws\<close> tells which.\<close>

definition handleStreamUpdate_throws :: "wsdata \<Rightarrow> bool" where
  "handleStreamUpdate_throws data = updateMapMarkers_throws (trucks data)"

definition handleStreamUpdate :: "string \<Rightarrow> wsdata \<Rightarrow> client \<Rightarrow> client" where
  "handleStreamUpdate timeLabel data s =
     (let s1 = s\<lparr>truckData := storeTrucks (trucks data) (truckData s)\<rparr>;
          s2 = addNewAlerts data s1;
          s3 = updateMapMarkers (trucks data) s2
      in if updateMapMarkers_throws (trucks data) then s3
         else
           (let s4 = updateRiskGauge (fleet_risk data) s3;
                s5 = updateCharts timeLabel data s4;
                s6 = updateAnalyticsStats s5
            in s6\<lparr>alert_count_badge := Some (totalAlertCount s6)\<rparr>))"

text \<open>A client that receives a sequence of \<open>stream_update\<close> messages, each at its
  own clock reading: \<open>ws.onmessage\<close> catches what a handler throws, so the next message
  finds the state in which the handler was left.\<close>

definition run_updates :: "(string \<times> wsdata) list \<Rightarrow> client \<Rightarrow> client" where
  "run_updates us s = foldl (\<lambda>acc u. handleStreamUpdate (fst u) (snd u) acc) s us"

subsection \<open>AI assistant\<close>

text \<open>The typing indicator is an element appended to the chat; \<open>removeTypingIndicator\<close>
  removes one if there is one.\<close>

definition showTypingIndicator :: "client \<Rightarrow> client" where
  "showTypingIndicator s = s\<lparr>typing_indicators := typing_indicators s + 1\<rparr>"

definition removeTypingIndicator :: "client \<Rightarrow> client" where
  "removeTypingIndicator s =
     (if typing_indicators s > 0 then s\<lparr>typing_indicators := typing_indicators s - 1\<rparr> else s)"

text \<open>\<open>addChatMessage\<close>: the message is appended to the chat with the time it was added
  (and handed to the chat-history store, which is outside the model).\<close>

definition addChatMessage :: "string \<Rightarrow> string \<Rightarrow> js_string \<Rightarrow> client \<Rightarrow> client" where
  "addChatMessage now role content s = s\<lparr>chat_messages := chat_messages s @ [(role, content, now)]\<rparr>"

definition handleAIResponse :: "string \<Rightarrow> wsdata \<Rightarrow> client \<Rightarrow> client" where
  "handleAIResponse now data s =
     (let s1 = removeTypingIndicator s;
          resp = (case response data of
                    None \<Rightarrow> ascii ''No response received.''
                  | Some r \<Rightarrow> if r = [] then ascii ''No response received.'' else r);
          s2 = addChatMessage now ''assistant'' resp s1;
          s3 = (case token_usage data of
                  None \<Rightarrow> s2
                | Some u \<Rightarrow>
                    (let cap = (case max_tokens data of
                                  None \<Rightarrow> 10000
                                | Some m \<Rightarrow> if m = 0 then 10000 else m)
                     in s2\<lparr>token_used := Some u,
                           token_bar_fill := Some (min 100 (u / cap * 100))\<rparr>))
      in s3\<lparr>ai_source_badge := Some (if source data = Some ''gemini'' then ''GEMINI''
                                      else ''RULE-BASED'')\<rparr>)"

text \<open>The code units that \<open>String.prototype.trim\<close> strips: the WhiteSpace and
  LineTerminator code points of ECMAScript (tab, line feed, vertical tab, form feed,
  carriage return, space, no-break space, U+1680, U+2000 to U+200A, U+2028, U+2029,
  U+202F, U+205F, U+3000, U+FEFF). All are single code units.\<close>

definition is_space :: "nat \<Rightarrow> bool" where
  "is_space c =
     (c \<in> {0x09, 0x0A, 0x0B, 0x0C, 0x0D, 0x20, 0xA0, 0x1680, 0x2028, 0x2029, 0x202F, 0x205F,
            0x3000, 0xFEFF} \<or> (0x2000 \<le> c \<and> c \<le> 0x200A))"

definition trim :: "js_string \<Rightarrow> js_string" where
  "trim s = rev (dropWhile is_space (rev (dropWhile is_space s)))"

text \<open>What \<open>sendAIMessage\<close> puts on the network: a message on the socket
  (\<open>{type, question}\<close>) or a POST (\<open>url\<close>, body \<open>{question}\<close>).\<close>

datatype outbound = WsSend string js_string | HttpPost string js_string

text \<open>\<open>ws_open\<close> is \<open>ws && ws.readyState === WebSocket.OPEN\<close>.\<close>

definition sendAIMessage :: "bool \<Rightarrow> string \<Rightarrow> client \<Rightarrow> client \<times> outbound option" where
  "sendAIMessage ws_open now s =
     (let question = trim (ai_input s) in
      if question = [] then (s, None)
      else
        (let s1 = addChatMessage now ''user'' question s;
             s2 = s1\<lparr>ai_input := []\<rparr>;
             s3 = showTypingIndicator s2
         in (s3, Some (if ws_open then WsSend ''ai_question'' question
                       else HttpPost ''/api/ai/ask'' question))))"

text \<open>How the POST ends: the request or the decoding of its body fails, or the body
  decodes to a JSON value.\<close>

datatype rest_outcome = RestFailed | RestBody json_top

definition restUnavailable :: "string \<Rightarrow> client \<Rightarrow> client" where
  "restUnavailable now s =
     addChatMessage now ''assistant''
       (ascii ''Unable to connect to the AI service. Please ensure the backend is running.'')
       (removeTypingIndicator s)"

text \<open>The promise chain \<open>.then(r => r.json()).then(data => handleAIResponse(data)).catch(...)\<close>.
  On \<open>null\<close>, \<open>handleAIResponse\<close> removes the typing indicator and then throws on
  \<open>data.response\<close>, so the \<open>catch\<close> runs after that removal.\<close>

definition restCompletion :: "string \<Rightarrow> rest_outcome \<Rightarrow> client \<Rightarrow> client" where
  "restCompletion now out s =
     (case out of
        RestFailed \<Rightarrow> restUnavailable now s
      | RestBody JNull \<Rightarrow> restUnavailable now (removeTypingIndicator s)
      | RestBody (JObj data) \<Rightarrow> handleAIResponse now data s)"

subsection \<open>Message dispatch\<close>

text \<open>\<open>handleMessage\<close> gives the exception the call is left by, if any, and the state
  it leaves. Reading \<open>data.type\<close> of \<open>null\<close> throws before anything is changed; a type
  with no \<open>case\<close> falls through the \<open>switch\<close>.\<close>

definition handleMessage ::
  "(string \<Rightarrow> string) \<Rightarrow> string \<Rightarrow> json_top \<Rightarrow> client \<Rightarrow> exn option \<times> client" where
  "handleMessage fmt now jv s =
     (case jv of
        JNull \<Rightarrow> (Some TypeError, s)
      | JObj data \<Rightarrow>
          if mtype data = Some ''initial_state''
          then (if handleInitialState_throws data then Some TypeError else None,
                handleInitialState fmt now data s)
          else if mtype data = Some ''stream_update''
          then (if handleStreamUpdate_throws data then Some TypeError else None,
                handleStreamUpdate now data s)
          else if mtype data = Some ''ai_response'' then (None, handleAIResponse now data s)
          else if mtype data = Some ''pong'' then (None, s)
          else (None, s))"

text \<open>\<open>ws.onmessage\<close>: \<open>try { handleMessage(JSON.parse(event.data)) } catch (e) { console.error(...) }\<close>.
  The result is \<open>Inr\<close> of the state left when the function returns normally, which it
  does also after catching; \<open>Inl\<close> would be an exception leaving it.\<close>

definition ws_onmessage :: "(string \<Rightarrow> string) \<Rightarrow> string \<Rightarrow> ws_event \<Rightarrow> client \<Rightarrow> exn + client" where
  "ws_onmessage fmt now ev s =
     (case (case ev of
              Unparsable \<Rightarrow> (Some SyntaxError, s)
            | Parsed jv \<Rightarrow> handleMessage fmt now jv s) of
        (Some e, s') \<Rightarrow> Inr s'
      | (None, s') \<Rightarrow> Inr s')"

section \<open>The alert engine\<close>

text \<open>
  Modelled from the spec: the Anomaly and Alert Engine runs on the server, whose code is
  not among the sources. The definitions below follow sections 4.3 and 9 of the
  specification: every tick each rule category is evaluated on every truck of the table;
  the engine remembers, per truck and rule, whether the rule had fired at the truck's
  last evaluation; an alert is emitted when the rule fires and had not fired before; the
  memory is cleared when the condition clears.
\<close>

datatype rule = TemperatureRule | SpeedDropRule | FuelRule

definition all_rules :: "rule list" where
  "all_rules = [TemperatureRule, SpeedDropRule, FuelRule]"

text \<open>Modelled from the spec: the thresholds of section 4.3. The speed-drop rule compares
  with the truck's rolling average, which the wire record does not carry: its condition
  is the argument \<open>sd\<close>.\<close>

fun rule_fires :: "(truck \<Rightarrow> bool) \<Rightarrow> rule \<Rightarrow> truck \<Rightarrow> bool" where
  "rule_fires sd TemperatureRule t = (temperature t < 28 \<or> temperature t > 38)"
| "rule_fires sd SpeedDropRule t = sd t"
| "rule_fires sd FuelRule t = (fuel_level t < 15)"

type_synonym fired_mem = "string \<times> rule \<Rightarrow> bool"

text \<open>Modelled from the spec: one tick of the engine. It returns the alerts emitted, each
  the subject truck and the rule, and the memory after the tick.\<close>

definition alert_tick ::
  "(rule \<Rightarrow> truck \<Rightarrow> bool) \<Rightarrow> truck list \<Rightarrow> fired_mem \<Rightarrow> (string \<times> rule) list \<times> fired_mem" where
  "alert_tick fires ts mem =
     (concat (map (\<lambda>t. map (\<lambda>r. (truck_id t, r))
                          (filter (\<lambda>r. fires r t \<and> \<not> mem (truck_id t, r)) all_rules)) ts),
      (\<lambda>(i, r). case find (\<lambda>t. truck_id t = i) ts of
                   None \<Rightarrow> mem (i, r)
                 | Some t \<Rightarrow> fires r t))"

text \<open>Modelled from the spec: the engine over consecutive ticks, one truck table per tick;
  the result lists the alerts of each tick.\<close>

fun alert_run ::
  "(rule \<Rightarrow> truck \<Rightarrow> bool) \<Rightarrow> truck list list \<Rightarrow> fired_mem \<Rightarrow> (string \<times> rule) list list" where
  "alert_run fires [] mem = []"
| "alert_run fires (ts # rest) mem =
     fst (alert_tick fires ts mem) # alert_run fires rest (snd (alert_tick fires ts mem))"

section \<open>Sample inputs\<close>

definition truck0 :: truck where
  "truck0 = \<lparr>truck_id = ''TRK-001'', origin = ''Chicago'', destination = ''Dallas'',
     latitude = 41, longitude = -87, speed = 58, temperature = 34, fuel_level = 80,
     engine_load = 45, driver = ''A. Rivera'', driver_license = ''D1234'',
     eta_minutes = Some 120, remaining_distance_miles = Some 116,
     risk_level = Some ''LOW'', explanation = None\<rparr>"

definition truck1 :: truck where
  "truck1 = truck0\<lparr>truck_id := ''TRK-002''\<rparr>"

definition alert0 :: alert where
  "alert0 = \<lparr>a_truck_id = ''TRK-001'', severity = ''warning'', title = ''Low fuel'',
     message = ''Fuel below 15%'', ai_insight = None, timestamp = None\<rparr>"

text \<open>A message of the given type with every optional property missing and no trucks.\<close>

definition bare_msg :: "string \<Rightarrow> wsdata" where
  "bare_msg ty = \<lparr>mtype = Some ty, trucks = [], alerts = None, kpi = None,
     fleet_risk = None, fleet_stats = None, eta_history = None, speed_history = None,
     risk_history = None, response = None, token_usage = None, max_tokens = None,
     source = None\<rparr>"

text \<open>An \<open>initial_state\<close> whose three history arrays are full (30 entries each), as
  the server sends it on every connect once it has run for 30 ticks.\<close>

definition full_history_msg :: wsdata where
  "full_history_msg = (bare_msg ''initial_state'')
     \<lparr>eta_history := Some (replicate 30 (''2026-01-01T10:00:00'', 42)),
      speed_history := Some (replicate 30 (''2026-01-01T10:00:00'', 55)),
      risk_history := Some (replicate 30 (''2026-01-01T10:00:00'', 20))\<rparr>"

section \<open>Properties of the truck table\<close>

lemma map_of_upsert: "map_of (upsert k x ps) = (map_of ps)(k \<mapsto> x)"
  by (induction ps) (auto simp: fun_eq_iff)

lemma map_of_storeTruck:
  "map_of (storeTruck t td) =
     (if truck_id t = ''__proto__'' then map_of td else (map_of td)(truck_id t \<mapsto> t))"
  by (simp add: storeTruck_def map_of_upsert)

lemma storeTrucks_Nil: "storeTrucks [] td = td"
  by (simp add: storeTrucks_def)

lemma storeTrucks_Cons: "storeTrucks (t # ts) td = storeTrucks ts (storeTruck t td)"
  by (simp add: storeTrucks_def)

lemma map_of_storeTrucks_cong:
  "map_of a = map_of b \<Longrightarrow> map_of (storeTrucks ts a) = map_of (storeTrucks ts b)"
proof (induction ts arbitrary: a b)
  case Nil
  then show ?case by (simp add: storeTrucks_Nil)
next
  case (Cons t ts)
  have "map_of (storeTruck t a) = map_of (storeTruck t b)"
    using Cons.prems by (simp add: map_of_storeTruck)
  from Cons.IH [OF this] show ?case by (simp add: storeTrucks_Cons)
qed

lemma updateMapMarkers_fields [simp]:
  "truckData (updateMapMarkers ts s) = truckData s"
  "alertsList (updateMapMarkers ts s) = alertsList s"
  "totalAlertCount (updateMapMarkers ts s) = totalAlertCount s"
  "chartData_eta (updateMapMarkers ts s) = chartData_eta s"
  "chartData_speed (updateMapMarkers ts s) = chartData_speed s"
  "chartData_risk (updateMapMarkers ts s) = chartData_risk s"
  "alert_count_badge (updateMapMarkers ts s) = alert_count_badge s"
  "stat_total_alerts (updateMapMarkers ts s) = stat_total_alerts s"
  "tempCompliance_data (updateMapMarkers ts s) = tempCompliance_data s"
  by (simp_all add: updateMapMarkers_def)

lemma updateRiskGauge_fields [simp]:
  "truckData (updateRiskGauge r s) = truckData s"
  "alertsList (updateRiskGauge r s) = alertsList s"
  "totalAlertCount (updateRiskGauge r s) = totalAlertCount s"
  "chartData_eta (updateRiskGauge r s) = chartData_eta s"
  "chartData_speed (updateRiskGauge r s) = chartData_speed s"
  "chartData_risk (updateRiskGauge r s) = chartData_risk s"
  "mapMarkers (updateRiskGauge r s) = mapMarkers s"
  by (simp_all add: updateRiskGauge_def Let_def split: option.splits)

lemma updateAnalyticsStats_fields [simp]:
  "truckData (updateAnalyticsStats s) = truckData s"
  "alertsList (updateAnalyticsStats s) = alertsList s"
  "totalAlertCount (updateAnalyticsStats s) = totalAlertCount s"
  "chartData_eta (updateAnalyticsStats s) = chartData_eta s"
  "chartData_speed (updateAnalyticsStats s) = chartData_speed s"
  "chartData_risk (updateAnalyticsStats s) = chartData_risk s"
  "stat_total_alerts (updateAnalyticsStats s) = Some (totalAlertCount s)"
  "mapMarkers (updateAnalyticsStats s) = mapMarkers s"
  "risk_circle_color (updateAnalyticsStats s) = risk_circle_color s"
  "risk_badge_class (updateAnalyticsStats s) = risk_badge_class s"
  "tempCompliance_data (updateAnalyticsStats s) = tempCompliance_data s"
  by (simp_all add: updateAnalyticsStats_def)

lemma updateCharts_fields [simp]:
  "truckData (updateCharts lbl d s) = truckData s"
  "alertsList (updateCharts lbl d s) = alertsList s"
  "totalAlertCount (updateCharts lbl d s) = totalAlertCount s"
  "mapMarkers (updateCharts lbl d s) = mapMarkers s"
  "risk_circle_color (updateCharts lbl d s) = risk_circle_color s"
  "risk_badge_class (updateCharts lbl d s) = risk_badge_class s"
  "tempCompliance_data (updateCharts lbl d s) = tempComplianceOf (map snd (truckData s))"
  by (simp_all add: updateCharts_def Let_def)

lemma truckData_handleInitialState:
  "truckData (handleInitialState fmt lbl d s) = storeTrucks (trucks d) (truckData s)"
  by (simp add: handleInitialState_def Let_def)

lemma addNewAlerts_fields [simp]:
  "truckData (addNewAlerts d s) = truckData s"
  "mapMarkers (addNewAlerts d s) = mapMarkers s"
  "chartData_eta (addNewAlerts d s) = chartData_eta s"
  "chartData_speed (addNewAlerts d s) = chartData_speed s"
  "chartData_risk (addNewAlerts d s) = chartData_risk s"
  "alert_count_badge (addNewAlerts d s) = alert_count_badge s"
  "stat_total_alerts (addNewAlerts d s) = stat_total_alerts s"
  "tempCompliance_data (addNewAlerts d s) = tempCompliance_data s"
  by (simp_all add: addNewAlerts_def split: option.splits)

lemma truckData_handleStreamUpdate:
  "truckData (handleStreamUpdate lbl d s) = storeTrucks (trucks d) (truckData s)"
  by (simp add: handleStreamUpdate_def Let_def)

lemma run_updates_Nil: "run_updates [] s = s"
  by (simp add: run_updates_def)

lemma run_updates_Cons:
  "run_updates (u # us) s = run_updates us (handleStreamUpdate (fst u) (snd u) s)"
  by (simp add: run_updates_def)

lemma run_updates_snoc:
  "run_updates (us @ [u]) s = handleStreamUpdate (fst u) (snd u) (run_updates us s)"
  by (simp add: run_updates_def)

lemma map_of_storeTrucks_add:
  "map_of (storeTrucks ts td) = map_of td ++ map_of (storeTrucks ts [])"
proof (induction ts arbitrary: td)
  case Nil
  show ?case by (simp add: storeTrucks_Nil)
next
  case (Cons t ts)
  show ?case
  proof (cases "truck_id t = ''__proto__''")
    case True
    then have "storeTruck t xs = xs" for xs
      by (simp add: storeTruck_def)
    then show ?thesis
      using Cons.IH [of td] by (simp add: storeTrucks_Cons)
  next
    case False
    have "map_of (storeTrucks (t # ts) td) =
          (map_of td)(truck_id t \<mapsto> t) ++ map_of (storeTrucks ts [])"
      unfolding storeTrucks_Cons
      by (simp only: Cons.IH [of "storeTruck t td"] map_of_storeTruck False if_False)
    moreover have "map_of (storeTrucks (t # ts) []) =
          [truck_id t \<mapsto> t] ++ map_of (storeTrucks ts [])"
      unfolding storeTrucks_Cons
      by (simp only: Cons.IH [of "storeTruck t []"] map_of_storeTruck False if_False map_of.simps)
    ultimately show ?thesis
      by (simp add: map_add_assoc [symmetric])
  qed
qed

lemma dom_storeTrucks:
  "dom (map_of (storeTrucks ts td)) = dom (map_of td) \<union> stored_ids ts"
proof (induction ts arbitrary: td)
  case Nil
  show ?case by (simp add: storeTrucks_Nil stored_ids_def)
next
  case (Cons t ts)
  show ?case
    unfolding storeTrucks_Cons Cons.IH by (auto simp: map_of_storeTruck stored_ids_def)
qed

text \<open>The table of a run of updates is the table before it, overwritten by the table the
  run builds from nothing.\<close>

lemma run_updates_table_add:
  "map_of (truckData (run_updates us s)) =
     map_of (truckData s) ++ map_of (truckData (run_updates us init_state))"
proof (induction us rule: rev_induct)
  case Nil
  show ?case by (simp add: run_updates_Nil init_state_def)
next
  case (snoc u us)
  have "map_of (truckData (run_updates (us @ [u]) s)) =
        map_of (truckData (run_updates us s)) ++ map_of (storeTrucks (trucks (snd u)) [])"
    unfolding run_updates_snoc truckData_handleStreamUpdate by (rule map_of_storeTrucks_add)
  moreover have "map_of (truckData (run_updates (us @ [u]) init_state)) =
        map_of (truckData (run_updates us init_state)) ++ map_of (storeTrucks (trucks (snd u)) [])"
    unfolding run_updates_snoc truckData_handleStreamUpdate by (rule map_of_storeTrucks_add)
  ultimately show ?case
    by (simp only: snoc.IH map_add_assoc)
qed

lemma dom_run_updates:
  "dom (map_of (truckData (run_updates us s))) =
     dom (map_of (truckData s)) \<union> (\<Union>u\<in>set us. stored_ids (trucks (snd u)))"
proof (induction us arbitrary: s)
  case Nil
  show ?case by (simp add: run_updates_Nil)
next
  case (Cons u us)
  show ?case
    unfolding run_updates_Cons Cons.IH truckData_handleStreamUpdate dom_storeTrucks by auto
qed

lemma map_add_covered_iff: "m ++ n = n \<longleftrightarrow> dom m \<subseteq> dom n"
proof
  assume "m ++ n = n"
  then have "dom (m ++ n) = dom n" by simp
  then show "dom m \<subseteq> dom n" by auto
next
  assume "dom m \<subseteq> dom n"
  then show "m ++ n = n"
    by (auto simp: map_add_def fun_eq_iff split: option.splits)
qed

text \<open>The tables of a newly connected session and of a session connected since tick 0,
  after the same later updates: the second is the first, laid over what was broadcast
  before the last update preceding the connection.\<close>

lemma new_session_table:
  "map_of (truckData (run_updates us (handleInitialState fmt lbl init init_state))) =
     map_of (storeTrucks (trucks init) []) ++ map_of (truckData (run_updates us init_state))"
proof -
  have "map_of (truckData (handleInitialState fmt lbl init init_state)) =
        map_of (storeTrucks (trucks init) [])"
    by (simp add: truckData_handleInitialState init_state_def)
  then show ?thesis
    using run_updates_table_add [of us "handleInitialState fmt lbl init init_state"] by simp
qed

lemma old_session_table:
  assumes "pre \<noteq> []"
  shows "map_of (truckData (run_updates us (run_updates pre init_state))) =
     map_of (truckData (run_updates (butlast pre) init_state)) ++
     (map_of (storeTrucks (trucks (snd (last pre))) []) ++
      map_of (truckData (run_updates us init_state)))"
proof -
  have e: "run_updates pre init_state =
        handleStreamUpdate (fst (last pre)) (snd (last pre)) (run_updates (butlast pre) init_state)"
    using assms run_updates_snoc [of "butlast pre" "last pre" init_state] by simp
  have "map_of (truckData (run_updates pre init_state)) =
        map_of (truckData (run_updates (butlast pre) init_state)) ++
        map_of (storeTrucks (trucks (snd (last pre))) [])"
    unfolding e truckData_handleStreamUpdate by (rule map_of_storeTrucks_add)
  then show ?thesis
    using run_updates_table_add [of us "run_updates pre init_state"]
    by (simp only: map_add_assoc)
qed

lemma sessions_agree_iff:
  assumes "pre \<noteq> []" and "trucks init = trucks (snd (last pre))"
  shows "map_of (truckData (run_updates us (handleInitialState fmt lbl init init_state))) =
         map_of (truckData (run_updates us (run_updates pre init_state))) \<longleftrightarrow>
         (\<Union>u\<in>set pre. stored_ids (trucks (snd u))) \<subseteq>
           stored_ids (trucks init) \<union> (\<Union>u\<in>set us. stored_ids (trucks (snd u)))"
proof -
  let ?P = "map_of (truckData (run_updates (butlast pre) init_state))"
  let ?N = "map_of (storeTrucks (trucks init) []) ++ map_of (truckData (run_updates us init_state))"
  have new: "map_of (truckData (run_updates us (handleInitialState fmt lbl init init_state))) = ?N"
    by (rule new_session_table)
  have old: "map_of (truckData (run_updates us (run_updates pre init_state))) = ?P ++ ?N"
    using old_session_table [OF assms(1), of us] by (simp only: assms(2))
  have domP: "dom ?P = (\<Union>u\<in>set (butlast pre). stored_ids (trucks (snd u)))"
    by (simp add: dom_run_updates init_state_def)
  have domN: "dom ?N = stored_ids (trucks init) \<union> (\<Union>u\<in>set us. stored_ids (trucks (snd u)))"
    by (simp add: dom_run_updates dom_storeTrucks init_state_def Un_commute)
  have pre: "set pre = insert (last pre) (set (butlast pre))"
    using assms(1) by (metis append_butlast_last_id list.simps(15) rotate1.simps(2) set_rotate1)
  have "?N = ?P ++ ?N \<longleftrightarrow> dom ?P \<subseteq> dom ?N"
    using map_add_covered_iff [of ?P ?N] by auto
  also have "\<dots> \<longleftrightarrow> (\<Union>u\<in>set pre. stored_ids (trucks (snd u))) \<subseteq>
           stored_ids (trucks init) \<union> (\<Union>u\<in>set us. stored_ids (trucks (snd u)))"
    unfolding domP domN pre using assms(2) by auto
  finally show ?thesis
    unfolding new old .
qed

section \<open>Properties of the alert list\<close>

lemma slice_last_short: "length xs \<le> n \<Longrightarrow> slice_last n xs = xs"
  by (simp add: slice_last_def)

lemma length_slice_last: "length (slice_last n xs) = min n (length xs)"
  by (simp add: slice_last_def)

lemma slice_last_append:
  "slice_last n (slice_last n xs @ ys) = slice_last n (xs @ ys)"
  by (cases "length xs \<le> n") (simp_all add: slice_last_def add.commute)

lemma alertsList_addNewAlerts:
  "alertsList (addNewAlerts d s) =
     (if newAlerts d = [] then alertsList s else slice_last 200 (alertsList s @ newAlerts d))"
  by (simp add: addNewAlerts_def newAlerts_def slice_last_short split: option.splits)

lemma totalAlertCount_addNewAlerts:
  "totalAlertCount (addNewAlerts d s) = totalAlertCount s + length (newAlerts d)"
  by (simp add: addNewAlerts_def newAlerts_def split: option.splits)

lemma alertsList_handleStreamUpdate:
  "alertsList (handleStreamUpdate lbl d s) =
     (if newAlerts d = [] then alertsList s else slice_last 200 (alertsList s @ newAlerts d))"
  by (simp add: handleStreamUpdate_def Let_def alertsList_addNewAlerts)

lemma totalAlertCount_handleStreamUpdate:
  "totalAlertCount (handleStreamUpdate lbl d s) = totalAlertCount s + length (newAlerts d)"
  by (simp add: handleStreamUpdate_def Let_def totalAlertCount_addNewAlerts)

lemma alertsList_step_capped:
  "length (alertsList s) \<le> 200 \<Longrightarrow>
   alertsList (handleStreamUpdate lbl d s) = slice_last 200 (alertsList s @ newAlerts d)"
  by (simp add: alertsList_handleStreamUpdate slice_last_short)

lemma alertsList_run_capped:
  "length (alertsList s) \<le> 200 \<Longrightarrow>
   alertsList (run_updates us s) =
     slice_last 200 (alertsList s @ concat (map (\<lambda>u. newAlerts (snd u)) us))"
proof (induction us arbitrary: s)
  case Nil
  then show ?case by (simp add: run_updates_Nil slice_last_short)
next
  case (Cons u us)
  let ?s1 = "handleStreamUpdate (fst u) (snd u) s"
  have step: "alertsList ?s1 = slice_last 200 (alertsList s @ newAlerts (snd u))"
    using Cons.prems by (rule alertsList_step_capped)
  then have "length (alertsList ?s1) \<le> 200"
    by (simp add: length_slice_last)
  from Cons.IH [OF this] show ?case
    by (simp add: run_updates_Cons step slice_last_append)
qed

section \<open>Properties of the counters and the page\<close>

lemma totalAlertCount_run:
  "totalAlertCount (run_updates us s) =
     totalAlertCount s + sum_list (map (\<lambda>u. length (newAlerts (snd u))) us)"
  by (induction us arbitrary: s)
     (simp_all add: run_updates_Nil run_updates_Cons totalAlertCount_handleStreamUpdate)

text \<open>An update that the handler completes leaves the counter in the badge and in the
  statistic; one that \<open>updateMapMarkers\<close> aborts leaves both as they were.\<close>

lemma badges_handleStreamUpdate:
  assumes "\<not> handleStreamUpdate_throws d"
  shows "alert_count_badge (handleStreamUpdate lbl d s) = Some (totalAlertCount (handleStreamUpdate lbl d s))"
    and "stat_total_alerts (handleStreamUpdate lbl d s) = Some (totalAlertCount (handleStreamUpdate lbl d s))"
  using assms by (simp_all add: handleStreamUpdate_def handleStreamUpdate_throws_def Let_def)

lemma badges_stale_on_throw:
  assumes "handleStreamUpdate_throws d"
  shows "alert_count_badge (handleStreamUpdate lbl d s) = alert_count_badge s"
    and "stat_total_alerts (handleStreamUpdate lbl d s) = stat_total_alerts s"
  using assms by (simp_all add: handleStreamUpdate_def handleStreamUpdate_throws_def Let_def)

lemma total_alert_count_can_exceed_list:
  "\<exists>u. length (alertsList (handleStreamUpdate lbl u init_state)) = 200 \<and>
       totalAlertCount (handleStreamUpdate lbl u init_state) = 201"
proof -
  let ?u = "(bare_msg ''stream_update'')\<lparr>alerts := Some (replicate 201 alert0)\<rparr>"
  have new: "newAlerts ?u = replicate 201 alert0"
    by (simp add: newAlerts_def)
  have "length (alertsList (handleStreamUpdate lbl ?u init_state)) = 200"
    by (simp add: alertsList_handleStreamUpdate new length_slice_last init_state_def)
  moreover have "totalAlertCount (handleStreamUpdate lbl ?u init_state) = 201"
    by (simp add: totalAlertCount_handleStreamUpdate new init_state_def)
  ultimately show ?thesis
    by blast
qed

lemma totalAlertCount_handleInitialState:
  "totalAlertCount (handleInitialState fmt lbl d s) = totalAlertCount s"
  by (simp add: handleInitialState_def Let_def)

lemma gauge_updateRiskGauge:
  "risk_badge_class (updateRiskGauge (Some r) s) = Some (''card-badge '' @
      (if overall_level r = Some ''LOW'' then ''badge-low''
       else if overall_level r = Some ''MEDIUM'' then ''badge-medium''
       else if overall_level r = Some ''HIGH'' then ''badge-high''
       else ''badge-critical''))"
  "risk_circle_color (updateRiskGauge (Some r) s) = Some
      (if overall_level r = Some ''LOW'' then ''#3cf91a''
       else if overall_level r = Some ''MEDIUM'' then ''#eab308''
       else if overall_level r = Some ''HIGH'' then ''#f97316''
       else ''#ef4444'')"
  by (simp_all add: updateRiskGauge_def Let_def)

lemma ai_source_badge_handleAIResponse:
  "ai_source_badge (handleAIResponse now d s) =
     Some (if source d = Some ''gemini'' then ''GEMINI'' else ''RULE-BASED'')"
  by (simp add: handleAIResponse_def Let_def split: option.splits)

section \<open>Properties of the temperature bands\<close>

lemma temp_band_exactly_one:
  "(temp_compliant t \<and> \<not> temp_warning t \<and> \<not> temp_critical t) \<or>
   (\<not> temp_compliant t \<and> temp_warning t \<and> \<not> temp_critical t) \<or>
   (\<not> temp_compliant t \<and> \<not> temp_warning t \<and> temp_critical t)"
  unfolding temp_compliant_def temp_warning_def temp_critical_def by auto

lemma temp_band_counts:
  "length (filter temp_compliant ts) + length (filter temp_warning ts) +
   length (filter temp_critical ts) = length ts"
proof (induction ts)
  case Nil
  show ?case by simp
next
  case (Cons t ts)
  from temp_band_exactly_one [of t] Cons.IH show ?case by auto
qed

lemma sum_three_bands:
  "c + w + k = n \<Longrightarrow>
   sum_list [if c = 0 then 1 else c, w, k] = n + (if c = 0 then 1 else (0::nat))"
  by auto

lemma sum_tempComplianceOf:
  "sum_list (tempComplianceOf ts) =
     length ts + (if length (filter temp_compliant ts) = 0 then 1 else 0)"
  unfolding tempComplianceOf_def Let_def by (rule sum_three_bands [OF temp_band_counts])

lemma tempCompliance_handleStreamUpdate:
  "\<not> handleStreamUpdate_throws d \<Longrightarrow>
   tempCompliance_data (handleStreamUpdate lbl d s) =
     tempComplianceOf (map snd (storeTrucks (trucks d) (truckData s)))"
  by (simp add: handleStreamUpdate_def handleStreamUpdate_throws_def Let_def)

section \<open>Properties of the history buffers\<close>

lemma length_shift_over30:
  "length (shift_over30 xs) = (if length xs > 30 then length xs - 1 else length xs)"
  by (simp add: shift_over30_def)

lemma shift_over30_bounded: "length xs \<le> 30 \<Longrightarrow> length (shift_over30 (xs @ [x])) \<le> 30"
  by (simp add: shift_over30_def)

lemma shift_over30_evicts_oldest:
  "length xs = 30 \<Longrightarrow> shift_over30 (xs @ [x]) = tl xs @ [x]"
  by (cases xs) (simp_all add: shift_over30_def)

lemma shift_over30_below: "length xs < 30 \<Longrightarrow> shift_over30 (xs @ [x]) = xs @ [x]"
  by (simp add: shift_over30_def)

lemma chartData_updateCharts:
  "chartData_eta (updateCharts lbl d s) =
     shift_over30 (chartData_eta s @ [(lbl, of_int (js_round (avgEta (map snd (truckData s)))))])"
  "chartData_speed (updateCharts lbl d s) =
     shift_over30 (chartData_speed s @
       [(lbl, case fleet_stats d of Some fs \<Rightarrow> avg_fleet_speed fs | None \<Rightarrow> 0)])"
  "chartData_risk (updateCharts lbl d s) =
     shift_over30 (chartData_risk s @
       [(lbl, case fleet_risk d of Some fr \<Rightarrow> overall_score fr | None \<Rightarrow> 0)])"
  by (simp_all add: updateCharts_def Let_def)

lemma chartData_handleStreamUpdate:
  assumes "\<not> handleStreamUpdate_throws d"
  shows "chartData_eta (handleStreamUpdate lbl d s) =
     shift_over30 (chartData_eta s @
       [(lbl, of_int (js_round (avgEta (map snd (storeTrucks (trucks d) (truckData s))))))])"
    and "chartData_speed (handleStreamUpdate lbl d s) =
     shift_over30 (chartData_speed s @
       [(lbl, case fleet_stats d of Some fs \<Rightarrow> avg_fleet_speed fs | None \<Rightarrow> 0)])"
    and "chartData_risk (handleStreamUpdate lbl d s) =
     shift_over30 (chartData_risk s @
       [(lbl, case fleet_risk d of Some fr \<Rightarrow> overall_score fr | None \<Rightarrow> 0)])"
  using assms
  by (simp_all add: handleStreamUpdate_def handleStreamUpdate_throws_def Let_def
      chartData_updateCharts)

lemma chartData_handleStreamUpdate_thrown:
  assumes "handleStreamUpdate_throws d"
  shows "chartData_eta (handleStreamUpdate lbl d s) = chartData_eta s"
    and "chartData_speed (handleStreamUpdate lbl d s) = chartData_speed s"
    and "chartData_risk (handleStreamUpdate lbl d s) = chartData_risk s"
  using assms by (simp_all add: handleStreamUpdate_def handleStreamUpdate_throws_def Let_def)

text \<open>
  A \<open>stream_update\<close> keeps a buffer of at most 30 samples within 30, and one that the
  handler completes on a full buffer drops exactly the oldest sample and appends the new
  one.
\<close>

lemma stream_updates_keep_buffers_bounded:
  "length (chartData_eta s) \<le> 30 \<Longrightarrow> length (chartData_eta (handleStreamUpdate lbl d s)) \<le> 30"
  "length (chartData_speed s) \<le> 30 \<Longrightarrow> length (chartData_speed (handleStreamUpdate lbl d s)) \<le> 30"
  "length (chartData_risk s) \<le> 30 \<Longrightarrow> length (chartData_risk (handleStreamUpdate lbl d s)) \<le> 30"
  by (cases "handleStreamUpdate_throws d";
      simp add: chartData_handleStreamUpdate chartData_handleStreamUpdate_thrown
        shift_over30_bounded)+

lemma stream_update_evicts_oldest_sample:
  assumes "\<not> handleStreamUpdate_throws d"
  shows "length (chartData_eta s) = 30 \<Longrightarrow>
   butlast (chartData_eta (handleStreamUpdate lbl d s)) = tl (chartData_eta s)"
    and "length (chartData_speed s) = 30 \<Longrightarrow>
   butlast (chartData_speed (handleStreamUpdate lbl d s)) = tl (chartData_speed s)"
    and "length (chartData_risk s) = 30 \<Longrightarrow>
   butlast (chartData_risk (handleStreamUpdate lbl d s)) = tl (chartData_risk s)"
  using assms by (simp_all add: chartData_handleStreamUpdate shift_over30_evicts_oldest)

lemma length_loadHistory: "length (loadHistory fmt val h buf) = length buf + histlen h"
  by (simp add: loadHistory_def histlen_def split: option.splits)

lemma length_chartData_handleInitialState:
  assumes "\<not> handleInitialState_throws d"
  shows "length (chartData_eta (handleInitialState fmt lbl d s)) =
     (if length (chartData_eta s) + histlen (eta_history d) + 1 > 30
      then length (chartData_eta s) + histlen (eta_history d)
      else length (chartData_eta s) + histlen (eta_history d) + 1)"
    and "length (chartData_speed (handleInitialState fmt lbl d s)) =
     (if length (chartData_speed s) + histlen (speed_history d) + 1 > 30
      then length (chartData_speed s) + histlen (speed_history d)
      else length (chartData_speed s) + histlen (speed_history d) + 1)"
    and "length (chartData_risk (handleInitialState fmt lbl d s)) =
     (if length (chartData_risk s) + histlen (risk_history d) + 1 > 30
      then length (chartData_risk s) + histlen (risk_history d)
      else length (chartData_risk s) + histlen (risk_history d) + 1)"
  using assms
  by (simp_all add: handleInitialState_def handleInitialState_throws_def Let_def
      chartData_updateCharts length_shift_over30 length_loadHistory)

lemma full_history_msg_completes: "\<not> handleInitialState_throws full_history_msg"
  by (simp add: handleInitialState_throws_def updateMapMarkers_throws_def full_history_msg_def
      bare_msg_def)

lemma histlen_full_history_msg:
  "histlen (eta_history full_history_msg) = 30"
  "histlen (speed_history full_history_msg) = 30"
  "histlen (risk_history full_history_msg) = 30"
  by (simp_all add: full_history_msg_def histlen_def)

section \<open>Properties of the alert engine\<close>

lemma count_rule_alerts:
  "count_list (map (\<lambda>r'. (j, r')) (filter P all_rules)) (i, r) =
     (if j = i \<and> P r then 1 else 0)"
  by (cases r) (auto simp: all_rules_def)

lemma count_alert_tick:
  "count_list (fst (alert_tick fires ts mem)) (i, r) =
     length (filter (\<lambda>t. truck_id t = i \<and> fires r t \<and> \<not> mem (i, r)) ts)"
  by (induction ts) (auto simp: alert_tick_def count_rule_alerts)

lemma find_unique:
  "filter P xs = [x] \<Longrightarrow> find P xs = Some x"
  by (induction xs) (auto split: if_splits)

lemma mem_after_tick:
  "filter (\<lambda>t. truck_id t = i) ts = [t] \<Longrightarrow> snd (alert_tick fires ts mem) (i, r) = fires r t"
  by (simp add: alert_tick_def find_unique)

lemma filter_conj_unique:
  "filter P xs = [x] \<Longrightarrow> length (filter (\<lambda>y. P y \<and> Q y) xs) = (if Q x then 1 else 0)"
proof -
  assume a: "filter P xs = [x]"
  have "filter (\<lambda>y. P y \<and> Q y) xs = filter Q (filter P xs)"
    by (induction xs) auto
  with a show ?thesis by simp
qed

lemma count_alert_tick_unique:
  "filter (\<lambda>t. truck_id t = i) ts = [t] \<Longrightarrow>
   count_list (fst (alert_tick fires ts mem)) (i, r) = (if fires r t \<and> \<not> mem (i, r) then 1 else 0)"
  using filter_conj_unique [of "\<lambda>t. truck_id t = i" ts t "\<lambda>t. fires r t \<and> \<not> mem (i, r)"]
  by (simp add: count_alert_tick)

lemma count_alert_run_fired:
  "\<forall>ts\<in>set tbls. \<exists>t. filter (\<lambda>t. truck_id t = i) ts = [t] \<and> fires r t \<Longrightarrow>
   count_list (concat (alert_run fires tbls mem)) (i, r) =
     (if tbls = [] \<or> mem (i, r) then 0 else 1)"
proof (induction tbls arbitrary: mem)
  case Nil
  show ?case by simp
next
  case (Cons ts tbls)
  from Cons.prems obtain t where t: "filter (\<lambda>t. truck_id t = i) ts = [t]" "fires r t"
    by auto
  have rest: "\<forall>ts\<in>set tbls. \<exists>t. filter (\<lambda>t. truck_id t = i) ts = [t] \<and> fires r t"
    using Cons.prems by simp
  have m: "snd (alert_tick fires ts mem) (i, r)"
    using t by (simp add: mem_after_tick)
  have "count_list (concat (alert_run fires tbls (snd (alert_tick fires ts mem)))) (i, r) = 0"
    using rest m Cons.IH [of "snd (alert_tick fires ts mem)"] by simp
  then show ?case
    using t by (simp add: count_alert_tick_unique)
qed

section \<open>Properties of the question field\<close>

lemma blank_question_not_sent:
  "trim (ai_input s) = [] \<Longrightarrow> sendAIMessage ws_open now s = (s, None)"
  by (simp add: sendAIMessage_def)

text \<open>A field holding only a no-break space is blank.\<close>

lemma nbsp_question_not_sent:
  "sendAIMessage True ''10:00'' (init_state\<lparr>ai_input := [0xA0]\<rparr>) =
     (init_state\<lparr>ai_input := [0xA0]\<rparr>, None)"
  by (simp add: sendAIMessage_def trim_def is_space_def)

section \<open>The properties of the specification\<close>

text \<open>
  C1, as stated, fails. The live truck table at connect time is the table of the last
  \<open>stream_update\<close> broadcast before the connection. After the broadcasts [TRK-001,
  TRK-002] and [TRK-001], an \<open>initial_state\<close> carrying [TRK-001] and one more update
  [TRK-001] applied to both sessions, the session connected since tick 0 still holds
  TRK-002 and the new session does not: the handlers write \<open>truckData[t.truck_id] = t\<close>
  and never delete.
\<close>

theorem new_session_diverges_counterexample:
  "trucks ((bare_msg ''initial_state'')\<lparr>trucks := [truck0]\<rparr>) =
     trucks (snd (last [(''10:00:00'', (bare_msg ''stream_update'')\<lparr>trucks := [truck0, truck1]\<rparr>),
                        (''10:00:02'', (bare_msg ''stream_update'')\<lparr>trucks := [truck0]\<rparr>)])) \<and>
   map_of (truckData (run_updates [(''10:00:04'', (bare_msg ''stream_update'')\<lparr>trucks := [truck0]\<rparr>)]
        (handleInitialState (\<lambda>x. x) ''10:00:03'' ((bare_msg ''initial_state'')\<lparr>trucks := [truck0]\<rparr>)
           init_state))) ''TRK-002'' = None \<and>
   map_of (truckData (run_updates [(''10:00:04'', (bare_msg ''stream_update'')\<lparr>trucks := [truck0]\<rparr>)]
        (run_updates [(''10:00:00'', (bare_msg ''stream_update'')\<lparr>trucks := [truck0, truck1]\<rparr>),
                      (''10:00:02'', (bare_msg ''stream_update'')\<lparr>trucks := [truck0]\<rparr>)]
           init_state))) ''TRK-002'' = Some truck1 \<and>
   map_of (truckData (run_updates [(''10:00:04'', (bare_msg ''stream_update'')\<lparr>trucks := [truck0]\<rparr>)]
        (handleInitialState (\<lambda>x. x) ''10:00:03'' ((bare_msg ''initial_state'')\<lparr>trucks := [truck0]\<rparr>)
           init_state))) \<noteq>
   map_of (truckData (run_updates [(''10:00:04'', (bare_msg ''stream_update'')\<lparr>trucks := [truck0]\<rparr>)]
        (run_updates [(''10:00:00'', (bare_msg ''stream_update'')\<lparr>trucks := [truck0, truck1]\<rparr>),
                      (''10:00:02'', (bare_msg ''stream_update'')\<lparr>trucks := [truck0]\<rparr>)]
           init_state)))"
proof -
  let ?new = "truckData (run_updates [(''10:00:04'', (bare_msg ''stream_update'')\<lparr>trucks := [truck0]\<rparr>)]
        (handleInitialState (\<lambda>x. x) ''10:00:03'' ((bare_msg ''initial_state'')\<lparr>trucks := [truck0]\<rparr>)
           init_state))"
  let ?old = "truckData (run_updates [(''10:00:04'', (bare_msg ''stream_update'')\<lparr>trucks := [truck0]\<rparr>)]
        (run_updates [(''10:00:00'', (bare_msg ''stream_update'')\<lparr>trucks := [truck0, truck1]\<rparr>),
                      (''10:00:02'', (bare_msg ''stream_update'')\<lparr>trucks := [truck0]\<rparr>)]
           init_state))"
  have n: "map_of ?new ''TRK-002'' = None"
    by (simp add: run_updates_Cons run_updates_Nil truckData_handleStreamUpdate
        truckData_handleInitialState storeTrucks_Cons storeTrucks_Nil storeTruck_def
        init_state_def truck0_def)
  have o: "map_of ?old ''TRK-002'' = Some truck1"
    by (simp add: run_updates_Cons run_updates_Nil truckData_handleStreamUpdate
        storeTrucks_Cons storeTrucks_Nil storeTruck_def init_state_def truck0_def truck1_def)
  from n o have "map_of ?new \<noteq> map_of ?old"
    by auto
  with n o show ?thesis
    by simp
qed

text \<open>
  C1, amended. Take a session connected since tick 0 that has applied the updates
  \<open>pre\<close>, and an \<open>initial_state\<close> whose trucks array is the live truck table at
  connect time, the array of the last of these updates. After any later sequence \<open>us\<close>
  of \<open>stream_update\<close> messages applied to both, the newly connected session holds the
  same table as the other (same keys, same record under each key) exactly when every
  truck id stored before the connection is an id of the \<open>initial_state\<close> or of one of
  the later updates; in particular whenever no truck id ever leaves the broadcast table.
  The handlers upsert by \<open>truck_id\<close> and never delete, so an id that has left the
  broadcast stays in the older session and never reaches the new one.
\<close>

theorem new_session_converges:
  assumes "pre \<noteq> []" and "trucks init = trucks (snd (last pre))"
  shows "map_of (truckData (run_updates us (handleInitialState fmt lbl init init_state))) =
         map_of (truckData (run_updates us (run_updates pre init_state))) \<longleftrightarrow>
         (\<Union>u\<in>set pre. stored_ids (trucks (snd u))) \<subseteq>
           stored_ids (trucks init) \<union> (\<Union>u\<in>set us. stored_ids (trucks (snd u)))"
  using assms by (rule sessions_agree_iff)

theorem new_session_converges_witness:
  "[(''10:00:00'', (bare_msg ''stream_update'')\<lparr>trucks := [truck0, truck1]\<rparr>),
    (''10:00:02'', (bare_msg ''stream_update'')\<lparr>trucks := [truck1, truck0\<lparr>speed := 61\<rparr>]\<rparr>)] \<noteq> [] \<and>
   trucks ((bare_msg ''initial_state'')\<lparr>trucks := [truck1, truck0\<lparr>speed := 61\<rparr>]\<rparr>) =
     trucks (snd (last [(''10:00:00'', (bare_msg ''stream_update'')\<lparr>trucks := [truck0, truck1]\<rparr>),
                        (''10:00:02'', (bare_msg ''stream_update'')\<lparr>trucks := [truck1, truck0\<lparr>speed := 61\<rparr>]\<rparr>)])) \<and>
   map_of (truckData (run_updates [(''10:00:04'', (bare_msg ''stream_update'')\<lparr>trucks := [truck0\<lparr>speed := 64\<rparr>]\<rparr>)]
        (handleInitialState (\<lambda>x. x) ''10:00:03''
           ((bare_msg ''initial_state'')\<lparr>trucks := [truck1, truck0\<lparr>speed := 61\<rparr>]\<rparr>) init_state))) =
   map_of (truckData (run_updates [(''10:00:04'', (bare_msg ''stream_update'')\<lparr>trucks := [truck0\<lparr>speed := 64\<rparr>]\<rparr>)]
        (run_updates [(''10:00:00'', (bare_msg ''stream_update'')\<lparr>trucks := [truck0, truck1]\<rparr>),
                      (''10:00:02'', (bare_msg ''stream_update'')\<lparr>trucks := [truck1, truck0\<lparr>speed := 61\<rparr>]\<rparr>)]
           init_state)))"
proof -
  let ?pre = "[(''10:00:00'', (bare_msg ''stream_update'')\<lparr>trucks := [truck0, truck1]\<rparr>),
    (''10:00:02'', (bare_msg ''stream_update'')\<lparr>trucks := [truck1, truck0\<lparr>speed := 61\<rparr>]\<rparr>)]"
  let ?init = "(bare_msg ''initial_state'')\<lparr>trucks := [truck1, truck0\<lparr>speed := 61\<rparr>]\<rparr>"
  let ?us = "[(''10:00:04'', (bare_msg ''stream_update'')\<lparr>trucks := [truck0\<lparr>speed := 64\<rparr>]\<rparr>)]"
  have h1: "?pre \<noteq> []"
    by simp
  have h2: "trucks ?init = trucks (snd (last ?pre))"
    by simp
  have cov: "(\<Union>u\<in>set ?pre. stored_ids (trucks (snd u))) \<subseteq>
           stored_ids (trucks ?init) \<union> (\<Union>u\<in>set ?us. stored_ids (trucks (snd u)))"
    by (simp add: stored_ids_def truck0_def truck1_def)
  from h1 h2 cov new_session_converges [OF h1 h2, of ?us "\<lambda>x. x" "''10:00:03''"]
  show ?thesis by blast
qed

text \<open>
  C2. The claim is that no history buffer ever holds more than 30 samples, also right
  after an \<open>initial_state\<close> has loaded the history arrays. The script says so itself
  (\<open>// Limit to 30 points\<close>) but removes at most one sample per call and never empties
  the buffers: \<open>handleInitialState\<close> appends the whole history to what is there.
  The page outlives the socket (\<open>onclose\<close> schedules \<open>connectWebSocket\<close> again), so a
  second \<open>initial_state\<close> arrives on buffers that are already full. Evaluated here:
  after the first \<open>initial_state\<close> with full history arrays the ETA buffer holds 30
  samples; after the second, each of the three buffers holds 60.
\<close>

theorem reconnect_overfills_history:
  "length (chartData_eta (handleInitialState (\<lambda>x. x) ''10:01:00'' full_history_msg init_state)) = 30 \<and>
   length (chartData_eta (handleInitialState (\<lambda>x. x) ''10:05:00'' full_history_msg
      (handleInitialState (\<lambda>x. x) ''10:01:00'' full_history_msg init_state))) = 60 \<and>
   length (chartData_speed (handleInitialState (\<lambda>x. x) ''10:05:00'' full_history_msg
      (handleInitialState (\<lambda>x. x) ''10:01:00'' full_history_msg init_state))) = 60 \<and>
   length (chartData_risk (handleInitialState (\<lambda>x. x) ''10:05:00'' full_history_msg
      (handleInitialState (\<lambda>x. x) ''10:01:00'' full_history_msg init_state))) = 60"
  by (simp add: length_chartData_handleInitialState full_history_msg_completes
      histlen_full_history_msg init_state_def)

text \<open>
  C3. Starting from an alert list of at most 200 entries (the empty list of a fresh
  client, or the list of an \<open>initial_state\<close>), after any sequence of
  \<open>stream_update\<close> messages the alert list is the last 200 entries of the old list
  followed by all alerts of the updates in arrival order: it never exceeds 200 entries,
  and what is evicted is exactly the oldest entries.
\<close>

theorem alert_log_capped_fifo:
  assumes "length (alertsList s) \<le> 200"
  shows "alertsList (run_updates us s) =
           slice_last 200 (alertsList s @ concat (map (\<lambda>u. newAlerts (snd u)) us)) \<and>
         length (alertsList (run_updates us s)) \<le> 200"
proof -
  have eq: "alertsList (run_updates us s) =
           slice_last 200 (alertsList s @ concat (map (\<lambda>u. newAlerts (snd u)) us))"
    using assms by (rule alertsList_run_capped)
  then have "length (alertsList (run_updates us s)) \<le> 200"
    by (simp add: length_slice_last)
  with eq show ?thesis by blast
qed

theorem alert_log_capped_fifo_witness:
  "length (alertsList init_state) \<le> 200 \<and>
   alertsList (run_updates [(''10:00:00'', (bare_msg ''stream_update'')\<lparr>alerts := Some (replicate 201 alert0)\<rparr>),
                            (''10:00:02'', (bare_msg ''stream_update'')\<lparr>alerts := Some [alert0\<lparr>title := ''Overheat''\<rparr>]\<rparr>)] init_state) =
     replicate 199 alert0 @ [alert0\<lparr>title := ''Overheat''\<rparr>] \<and>
   length (alertsList (run_updates [(''10:00:00'', (bare_msg ''stream_update'')\<lparr>alerts := Some (replicate 201 alert0)\<rparr>),
                            (''10:00:02'', (bare_msg ''stream_update'')\<lparr>alerts := Some [alert0\<lparr>title := ''Overheat''\<rparr>]\<rparr>)] init_state)) \<le> 200"
proof -
  have h: "length (alertsList init_state) \<le> 200"
    by (simp add: init_state_def)
  have "slice_last 200 (alertsList init_state @ concat (map (\<lambda>u. newAlerts (snd u))
          [(''10:00:00'', (bare_msg ''stream_update'')\<lparr>alerts := Some (replicate 201 alert0)\<rparr>),
           (''10:00:02'', (bare_msg ''stream_update'')\<lparr>alerts := Some [alert0\<lparr>title := ''Overheat''\<rparr>]\<rparr>)])) =
        replicate 199 alert0 @ [alert0\<lparr>title := ''Overheat''\<rparr>]"
    by (simp add: init_state_def newAlerts_def slice_last_def)
  with h alert_log_capped_fifo [OF h] show ?thesis by simp
qed

text \<open>
  C4, as stated, fails on the displayed counts: the doughnut shows
  \<open>compliant || 1\<close>, so with one truck at 45 degrees it shows 1, 0, 1.
\<close>

theorem temperature_counts_counterexample:
  "tempCompliance_data (handleStreamUpdate ''10:00:00''
      ((bare_msg ''stream_update'')\<lparr>trucks := [truck0\<lparr>temperature := 45\<rparr>]\<rparr>) init_state) = [1, 0, 1] \<and>
   length (truckData (handleStreamUpdate ''10:00:00''
      ((bare_msg ''stream_update'')\<lparr>trucks := [truck0\<lparr>temperature := 45\<rparr>]\<rparr>) init_state)) = 1 \<and>
   sum_list (tempCompliance_data (handleStreamUpdate ''10:00:00''
      ((bare_msg ''stream_update'')\<lparr>trucks := [truck0\<lparr>temperature := 45\<rparr>]\<rparr>) init_state)) \<noteq>
   length (truckData (handleStreamUpdate ''10:00:00''
      ((bare_msg ''stream_update'')\<lparr>trucks := [truck0\<lparr>temperature := 45\<rparr>]\<rparr>) init_state))"
proof -
  have "\<not> handleStreamUpdate_throws
      ((bare_msg ''stream_update'')\<lparr>trucks := [truck0\<lparr>temperature := 45\<rparr>]\<rparr>)"
    by (simp add: handleStreamUpdate_throws_def updateMapMarkers_throws_def
        is_prototype_member_def object_prototype_members_def truck0_def)
  then show ?thesis
    by (simp add: tempCompliance_handleStreamUpdate truckData_handleStreamUpdate
        storeTrucks_Cons storeTrucks_Nil storeTruck_def truck0_def init_state_def
        tempComplianceOf_def temp_compliant_def temp_warning_def temp_critical_def)
qed

text \<open>
  C4, amended. A temperature in [28, 38] is compliant, one outside [28, 38] but within
  [25, 42] is warning, one outside [25, 42] is critical; every truck is in exactly one
  band, and the three band counts sum to the number of trucks. The doughnut shows the
  compliant count with 1 in place of 0, so the displayed values sum to the number of
  trucks when some truck is compliant and to one more when none is. The temperature bar
  of the detail panel is cyan exactly for a compliant truck.
\<close>

theorem temperature_bands:
  "(temp_compliant t \<longleftrightarrow> 28 \<le> temperature t \<and> temperature t \<le> 38) \<and>
   (temp_warning t \<longleftrightarrow> \<not> temp_compliant t \<and> 25 \<le> temperature t \<and> temperature t \<le> 42) \<and>
   (temp_critical t \<longleftrightarrow> \<not> (25 \<le> temperature t \<and> temperature t \<le> 42)) \<and>
   ((temp_compliant t \<and> \<not> temp_warning t \<and> \<not> temp_critical t) \<or>
    (\<not> temp_compliant t \<and> temp_warning t \<and> \<not> temp_critical t) \<or>
    (\<not> temp_compliant t \<and> \<not> temp_warning t \<and> temp_critical t)) \<and>
   length (filter temp_compliant ts) + length (filter temp_warning ts) +
     length (filter temp_critical ts) = length ts \<and>
   tempCompliance_data (updateCharts lbl d s) =
     [if length (filter temp_compliant (map snd (truckData s))) = 0 then 1
      else length (filter temp_compliant (map snd (truckData s))),
      length (filter temp_warning (map snd (truckData s))),
      length (filter temp_critical (map snd (truckData s)))] \<and>
   sum_list (tempCompliance_data (updateCharts lbl d s)) =
     length (truckData s) +
     (if length (filter temp_compliant (map snd (truckData s))) = 0 then 1 else 0) \<and>
   (detailTempBarColor t = ''cyan'' \<longleftrightarrow> temp_compliant t)"
proof -
  have a: "(temp_compliant t \<longleftrightarrow> 28 \<le> temperature t \<and> temperature t \<le> 38) \<and>
   (temp_warning t \<longleftrightarrow> \<not> temp_compliant t \<and> 25 \<le> temperature t \<and> temperature t \<le> 42) \<and>
   (temp_critical t \<longleftrightarrow> \<not> (25 \<le> temperature t \<and> temperature t \<le> 42))"
    unfolding temp_compliant_def temp_warning_def temp_critical_def by auto
  have b: "tempCompliance_data (updateCharts lbl d s) =
     [if length (filter temp_compliant (map snd (truckData s))) = 0 then 1
      else length (filter temp_compliant (map snd (truckData s))),
      length (filter temp_warning (map snd (truckData s))),
      length (filter temp_critical (map snd (truckData s)))]"
    by (simp only: updateCharts_fields tempComplianceOf_def Let_def)
  have c: "sum_list (tempCompliance_data (updateCharts lbl d s)) =
     length (truckData s) +
     (if length (filter temp_compliant (map snd (truckData s))) = 0 then 1 else 0)"
    by (simp only: updateCharts_fields sum_tempComplianceOf length_map)
  have e: "detailTempBarColor t = ''cyan'' \<longleftrightarrow> temp_compliant t"
    by (auto simp: detailTempBarColor_def temp_compliant_def)
  from a b c e temp_band_exactly_one [of t] temp_band_counts [of ts] show ?thesis
    by blast
qed

text \<open>
  C5, as stated, fails: an answer whose source is \<open>model\<close> gets the badge
  RULE-BASED, the same badge as an answer whose source is \<open>rule-based\<close>.
\<close>

theorem ai_badge_model_counterexample:
  "source ((bare_msg ''ai_response'')\<lparr>response := Some (ascii ''All trucks on time.''), source := Some ''model''\<rparr>) = Some ''model'' \<and>
   ai_source_badge (handleAIResponse ''10:00''
      ((bare_msg ''ai_response'')\<lparr>response := Some (ascii ''All trucks on time.''), source := Some ''model''\<rparr>) init_state) =
     Some ''RULE-BASED'' \<and>
   ai_source_badge (handleAIResponse ''10:00''
      ((bare_msg ''ai_response'')\<lparr>response := Some (ascii ''All trucks on time.''), source := Some ''model''\<rparr>) init_state) =
   ai_source_badge (handleAIResponse ''10:00''
      ((bare_msg ''ai_response'')\<lparr>response := Some (ascii ''All trucks on time.''), source := Some ''rule-based''\<rparr>) init_state)"
  by (simp add: ai_source_badge_handleAIResponse)

text \<open>
  C5, amended. The badge is GEMINI exactly when the source field is the string
  \<open>gemini\<close>; for every other value of the field, \<open>model\<close> and a missing field
  included, it is RULE-BASED.
\<close>

theorem ai_badge_follows_source:
  "ai_source_badge (handleAIResponse now d s) =
     Some (if source d = Some ''gemini'' then ''GEMINI'' else ''RULE-BASED'')"
  by (rule ai_source_badge_handleAIResponse)

text \<open>
  C6. The question is the trimmed text of the input field (\<open>trim\<close> strips every white
  space and line terminator of ECMAScript at both ends); an empty one is not submitted.
  A question is sent as \<open>{type: ai_question, question}\<close> on the socket when the socket is
  open, and is otherwise POSTed to \<open>/api/ai/ask\<close> with body \<open>{question}\<close>; the client
  state after sending is the same on both paths. A reply object of type \<open>ai_response\<close>
  is handled by \<open>handleAIResponse\<close> on both paths, so the state after the REST reply is
  the state after the same reply on the socket.
\<close>

theorem ai_question_routing:
  assumes "trim (ai_input s) \<noteq> []" and "mtype d = Some ''ai_response''"
  shows "snd (sendAIMessage True now s) = Some (WsSend ''ai_question'' (trim (ai_input s))) \<and>
         snd (sendAIMessage False now s) = Some (HttpPost ''/api/ai/ask'' (trim (ai_input s))) \<and>
         fst (sendAIMessage True now s) = fst (sendAIMessage False now s) \<and>
         restCompletion now' (RestBody (JObj d)) s' = handleAIResponse now' d s' \<and>
         ws_onmessage fmt now' (Parsed (JObj d)) s' = Inr (restCompletion now' (RestBody (JObj d)) s')"
  using assms
  by (simp add: sendAIMessage_def Let_def restCompletion_def ws_onmessage_def handleMessage_def)

theorem ai_question_routing_witness:
  "trim (ai_input (init_state\<lparr>ai_input := [0x20, 0x45, 0x54, 0x41, 0x3F, 0xA0]\<rparr>)) \<noteq> [] \<and>
   mtype ((bare_msg ''ai_response'')\<lparr>response := Some (ascii ''En route.'')\<rparr>) = Some ''ai_response'' \<and>
   snd (sendAIMessage True ''10:00'' (init_state\<lparr>ai_input := [0x20, 0x45, 0x54, 0x41, 0x3F, 0xA0]\<rparr>)) =
     Some (WsSend ''ai_question'' [0x45, 0x54, 0x41, 0x3F]) \<and>
   snd (sendAIMessage False ''10:00'' (init_state\<lparr>ai_input := [0x20, 0x45, 0x54, 0x41, 0x3F, 0xA0]\<rparr>)) =
     Some (HttpPost ''/api/ai/ask'' [0x45, 0x54, 0x41, 0x3F]) \<and>
   ws_onmessage (\<lambda>x. x) ''10:01''
     (Parsed (JObj ((bare_msg ''ai_response'')\<lparr>response := Some (ascii ''En route.'')\<rparr>))) init_state =
     Inr (restCompletion ''10:01''
       (RestBody (JObj ((bare_msg ''ai_response'')\<lparr>response := Some (ascii ''En route.'')\<rparr>))) init_state)"
proof -
  have t: "trim [0x20, 0x45, 0x54, 0x41, 0x3F, 0xA0] = [0x45, 0x54, 0x41, 0x3F]"
    by (simp add: trim_def is_space_def)
  have m: "mtype ((bare_msg ''ai_response'')\<lparr>response := Some (ascii ''En route.'')\<rparr>) = Some ''ai_response''"
    by (simp add: bare_msg_def)
  have h: "trim (ai_input (init_state\<lparr>ai_input := [0x20, 0x45, 0x54, 0x41, 0x3F, 0xA0]\<rparr>)) \<noteq> []"
    by (simp add: t)
  from ai_question_routing [OF h m, of "''10:00''" "''10:01''" init_state "\<lambda>x. x"] h m t
  show ?thesis by simp
qed

text \<open>
  C7. In the engine modelled from the specification: when exactly one truck of the table
  has the id, the number of alerts a tick emits for that truck and rule is 1 if the rule
  fires now and did not fire at the previous tick, and 0 otherwise; and a rule that fires
  on the truck at each of 5 consecutive ticks, not having fired before, emits exactly one
  alert over the 5 ticks, at the first of them.
\<close>

theorem edge_triggered_alerts:
  "(filter (\<lambda>t. truck_id t = i) prev_ts = [prev_t] \<and> filter (\<lambda>t. truck_id t = i) cur_ts = [cur_t] \<longrightarrow>
      count_list (fst (alert_tick fires cur_ts (snd (alert_tick fires prev_ts mem)))) (i, r) =
        (if fires r cur_t \<and> \<not> fires r prev_t then 1 else 0)) \<and>
   (list_all (\<lambda>ts. \<exists>t. filter (\<lambda>t. truck_id t = i) ts = [t] \<and> fires r t) tbls \<and>
    length tbls = 5 \<and> \<not> mem (i, r) \<longrightarrow>
      count_list (concat (alert_run fires tbls mem)) (i, r) = 1 \<and>
      count_list (hd (alert_run fires tbls mem)) (i, r) = 1)"
proof -
  have a: "filter (\<lambda>t. truck_id t = i) prev_ts = [prev_t] \<and> filter (\<lambda>t. truck_id t = i) cur_ts = [cur_t] \<longrightarrow>
      count_list (fst (alert_tick fires cur_ts (snd (alert_tick fires prev_ts mem)))) (i, r) =
        (if fires r cur_t \<and> \<not> fires r prev_t then 1 else 0)"
    by (simp add: count_alert_tick_unique mem_after_tick)
  have b: "count_list (concat (alert_run fires tbls mem)) (i, r) = 1 \<and>
      count_list (hd (alert_run fires tbls mem)) (i, r) = 1"
    if la: "list_all (\<lambda>ts. \<exists>t. filter (\<lambda>t. truck_id t = i) ts = [t] \<and> fires r t) tbls"
      and n: "length tbls = 5" and m: "\<not> mem (i, r)"
  proof -
    from la have h: "\<forall>ts\<in>set tbls. \<exists>t. filter (\<lambda>t. truck_id t = i) ts = [t] \<and> fires r t"
      by (simp add: list_all_iff)
    from n obtain ts rest where tr: "tbls = ts # rest"
      by (cases tbls) auto
    from h tr obtain t where t: "filter (\<lambda>t. truck_id t = i) ts = [t]" "fires r t"
      by auto
    have "count_list (hd (alert_run fires tbls mem)) (i, r) = 1"
      using t m by (simp add: tr count_alert_tick_unique)
    moreover have "count_list (concat (alert_run fires tbls mem)) (i, r) = 1"
      using h m tr count_alert_run_fired [of tbls i fires r mem] by simp
    ultimately show ?thesis by blast
  qed
  from a b show ?thesis by blast
qed

theorem edge_triggered_alerts_witness:
  "filter (\<lambda>t. truck_id t = ''TRK-001'') [truck0] = [truck0] \<and>
   filter (\<lambda>t. truck_id t = ''TRK-001'') [truck0\<lparr>temperature := 45\<rparr>] = [truck0\<lparr>temperature := 45\<rparr>] \<and>
   count_list (fst (alert_tick (rule_fires (\<lambda>t. False)) [truck0\<lparr>temperature := 45\<rparr>]
      (snd (alert_tick (rule_fires (\<lambda>t. False)) [truck0] (\<lambda>p. False)))))
      (''TRK-001'', TemperatureRule) = 1 \<and>
   list_all (\<lambda>ts. \<exists>t. filter (\<lambda>t. truck_id t = ''TRK-001'') ts = [t] \<and>
                      rule_fires (\<lambda>t. False) TemperatureRule t)
     (replicate 5 [truck0\<lparr>temperature := 45\<rparr>]) \<and>
   length (replicate 5 [truck0\<lparr>temperature := 45\<rparr>]) = 5 \<and>
   \<not> (\<lambda>p. False) (''TRK-001'', TemperatureRule) \<and>
   count_list (concat (alert_run (rule_fires (\<lambda>t. False))
     (replicate 5 [truck0\<lparr>temperature := 45\<rparr>]) (\<lambda>p. False))) (''TRK-001'', TemperatureRule) = 1"
proof -
  have h: "list_all (\<lambda>ts. \<exists>t. filter (\<lambda>t. truck_id t = ''TRK-001'') ts = [t] \<and>
                      rule_fires (\<lambda>t. False) TemperatureRule t)
     (replicate 5 [truck0\<lparr>temperature := 45\<rparr>])"
    by (simp add: list_all_iff truck0_def)
  have f: "filter (\<lambda>t. truck_id t = ''TRK-001'') [truck0] = [truck0]"
     "filter (\<lambda>t. truck_id t = ''TRK-001'') [truck0\<lparr>temperature := 45\<rparr>] = [truck0\<lparr>temperature := 45\<rparr>]"
     "rule_fires (\<lambda>t. False) TemperatureRule (truck0\<lparr>temperature := 45\<rparr>)"
     "\<not> rule_fires (\<lambda>t. False) TemperatureRule truck0"
    by (simp_all add: truck0_def)
  from h f edge_triggered_alerts [where i = "''TRK-001''" and fires = "rule_fires (\<lambda>t. False)"
      and mem = "\<lambda>p. False" and tbls = "replicate 5 [truck0\<lparr>temperature := 45\<rparr>]"
      and r = TemperatureRule and prev_ts = "[truck0]" and prev_t = truck0
      and cur_ts = "[truck0\<lparr>temperature := 45\<rparr>]" and cur_t = "truck0\<lparr>temperature := 45\<rparr>"]
  show ?thesis by simp
qed

text \<open>
  C8. When the message does not parse, when it parses to \<open>null\<close>, or when its type is
  none of \<open>initial_state\<close>, \<open>stream_update\<close>, \<open>ai_response\<close>, \<open>pong\<close>, the handler
  returns normally and the whole client state is unchanged; \<open>pong\<close> changes nothing
  either; and for every event the handler returns normally.
\<close>

theorem unknown_message_ignored:
  "ws_onmessage fmt now Unparsable s = Inr s \<and>
   ws_onmessage fmt now (Parsed JNull) s = Inr s \<and>
   (mtype d \<notin> {Some ''initial_state'', Some ''stream_update'', Some ''ai_response'', Some ''pong''} \<longrightarrow>
      ws_onmessage fmt now (Parsed (JObj d)) s = Inr s) \<and>
   (mtype d = Some ''pong'' \<longrightarrow> ws_onmessage fmt now (Parsed (JObj d)) s = Inr s) \<and>
   (\<exists>s'. ws_onmessage fmt now ev s = Inr s')"
proof -
  have "\<exists>s'. ws_onmessage fmt now ev s = Inr s'"
    by (simp add: ws_onmessage_def split: prod.splits option.splits)
  then show ?thesis
    by (simp add: ws_onmessage_def handleMessage_def)
qed

theorem unknown_message_ignored_witness:
  "mtype (bare_msg ''heartbeat'') \<notin>
     {Some ''initial_state'', Some ''stream_update'', Some ''ai_response'', Some ''pong''} \<and>
   ws_onmessage (\<lambda>x. x) ''10:00:00'' (Parsed (JObj (bare_msg ''heartbeat''))) init_state = Inr init_state \<and>
   mtype (bare_msg ''pong'') = Some ''pong'' \<and>
   ws_onmessage (\<lambda>x. x) ''10:00:00'' (Parsed (JObj (bare_msg ''pong''))) init_state = Inr init_state"
  using unknown_message_ignored [of "\<lambda>x. x" "''10:00:00''" init_state "bare_msg ''heartbeat''"]
        unknown_message_ignored [of "\<lambda>x. x" "''10:00:00''" init_state "bare_msg ''pong''"]
  by (simp add: bare_msg_def)

text \<open>
  C9. The claim is that every \<open>stream_update\<close> adds the number of its alerts to
  \<open>totalAlertCount\<close> and that the alert badge and the total-alerts statistic show that
  count. The counter part holds for every update (\<open>totalAlertCount_handleStreamUpdate\<close>,
  \<open>totalAlertCount_run\<close>), and the count can exceed the capped list
  (\<open>total_alert_count_can_exceed_list\<close>). The handler writes the statistic and the badge
  at its end, after \<open>updateMapMarkers\<close>; the marker table is a plain object, so for a
  truck whose id names a member of \<open>Object.prototype\<close> that call throws, after the
  counter has been increased and before the two writes. Evaluated here: after a first
  update with one alert the counter and the badge are 1; after a second update with one
  alert and a truck with the id \<open>constructor\<close>, the counter is 2 while the badge and the
  statistic still show 1.
\<close>

theorem throwing_update_leaves_badge_stale:
  "handleStreamUpdate_throws
     ((bare_msg ''stream_update'')\<lparr>trucks := [truck0\<lparr>truck_id := ''constructor''\<rparr>],
                                   alerts := Some [alert0]\<rparr>) \<and>
   totalAlertCount (handleStreamUpdate ''10:00:00''
     ((bare_msg ''stream_update'')\<lparr>trucks := [truck0], alerts := Some [alert0]\<rparr>) init_state) = 1 \<and>
   alert_count_badge (handleStreamUpdate ''10:00:00''
     ((bare_msg ''stream_update'')\<lparr>trucks := [truck0], alerts := Some [alert0]\<rparr>) init_state) = Some 1 \<and>
   totalAlertCount (handleStreamUpdate ''10:00:02''
     ((bare_msg ''stream_update'')\<lparr>trucks := [truck0\<lparr>truck_id := ''constructor''\<rparr>],
                                   alerts := Some [alert0]\<rparr>)
     (handleStreamUpdate ''10:00:00''
       ((bare_msg ''stream_update'')\<lparr>trucks := [truck0], alerts := Some [alert0]\<rparr>) init_state)) = 2 \<and>
   alert_count_badge (handleStreamUpdate ''10:00:02''
     ((bare_msg ''stream_update'')\<lparr>trucks := [truck0\<lparr>truck_id := ''constructor''\<rparr>],
                                   alerts := Some [alert0]\<rparr>)
     (handleStreamUpdate ''10:00:00''
       ((bare_msg ''stream_update'')\<lparr>trucks := [truck0], alerts := Some [alert0]\<rparr>) init_state)) = Some 1 \<and>
   stat_total_alerts (handleStreamUpdate ''10:00:02''
     ((bare_msg ''stream_update'')\<lparr>trucks := [truck0\<lparr>truck_id := ''constructor''\<rparr>],
                                   alerts := Some [alert0]\<rparr>)
     (handleStreamUpdate ''10:00:00''
       ((bare_msg ''stream_update'')\<lparr>trucks := [truck0], alerts := Some [alert0]\<rparr>) init_state)) = Some 1"
proof -
  let ?u1 = "(bare_msg ''stream_update'')\<lparr>trucks := [truck0], alerts := Some [alert0]\<rparr>"
  let ?u2 = "(bare_msg ''stream_update'')\<lparr>trucks := [truck0\<lparr>truck_id := ''constructor''\<rparr>],
                                   alerts := Some [alert0]\<rparr>"
  have t2: "handleStreamUpdate_throws ?u2"
    by (simp add: handleStreamUpdate_throws_def updateMapMarkers_throws_def
        is_prototype_member_def object_prototype_members_def)
  have t1: "\<not> handleStreamUpdate_throws ?u1"
    by (simp add: handleStreamUpdate_throws_def updateMapMarkers_throws_def
        is_prototype_member_def object_prototype_members_def truck0_def)
  have n: "newAlerts ?u1 = [alert0]" "newAlerts ?u2 = [alert0]"
    by (simp_all add: newAlerts_def)
  have c1: "totalAlertCount (handleStreamUpdate ''10:00:00'' ?u1 init_state) = 1"
    by (simp add: totalAlertCount_handleStreamUpdate n init_state_def)
  have b1: "alert_count_badge (handleStreamUpdate ''10:00:00'' ?u1 init_state) = Some 1"
    using badges_handleStreamUpdate(1) [OF t1, of "''10:00:00''" init_state] c1 by simp
  have s1: "stat_total_alerts (handleStreamUpdate ''10:00:00'' ?u1 init_state) = Some 1"
    using badges_handleStreamUpdate(2) [OF t1, of "''10:00:00''" init_state] c1 by simp
  have c2: "totalAlertCount (handleStreamUpdate ''10:00:02'' ?u2
      (handleStreamUpdate ''10:00:00'' ?u1 init_state)) = 2"
    by (simp add: totalAlertCount_handleStreamUpdate n init_state_def)
  have b2: "alert_count_badge (handleStreamUpdate ''10:00:02'' ?u2
      (handleStreamUpdate ''10:00:00'' ?u1 init_state)) = Some 1"
    by (simp only: badges_stale_on_throw(1) [OF t2] b1)
  have s2: "stat_total_alerts (handleStreamUpdate ''10:00:02'' ?u2
      (handleStreamUpdate ''10:00:00'' ?u1 init_state)) = Some 1"
    by (simp only: badges_stale_on_throw(2) [OF t2] s1)
  from t2 c1 b1 c2 b2 s2 show ?thesis
    by blast
qed

text \<open>
  C10. \<open>getMarkerColor\<close> gives the colour of LOW for every level other than CRITICAL,
  HIGH and MEDIUM, a missing one included; \<open>updateRiskGauge\<close> gives the class and colour
  of CRITICAL for every level other than LOW, MEDIUM and HIGH. So some level outside the
  four named ones is drawn as the lowest risk on the map and as the highest on the
  gauge, and the two colours of each renderer differ.
\<close>

theorem risk_renderers_disagree:
  "(lvl \<notin> {Some ''CRITICAL'', Some ''HIGH'', Some ''MEDIUM''} \<longrightarrow>
      getMarkerColor lvl = ''#3cf91a'' \<and> getMarkerColor lvl = getMarkerColor (Some ''LOW'')) \<and>
   (overall_level r \<notin> {Some ''LOW'', Some ''MEDIUM'', Some ''HIGH''} \<longrightarrow>
      risk_badge_class (updateRiskGauge (Some r) s) = Some ''card-badge badge-critical'' \<and>
      risk_circle_color (updateRiskGauge (Some r) s) = Some ''#ef4444'' \<and>
      risk_badge_class (updateRiskGauge (Some r) s) =
        risk_badge_class (updateRiskGauge (Some (r\<lparr>overall_level := Some ''CRITICAL''\<rparr>)) s) \<and>
      risk_circle_color (updateRiskGauge (Some r) s) =
        risk_circle_color (updateRiskGauge (Some (r\<lparr>overall_level := Some ''CRITICAL''\<rparr>)) s)) \<and>
   (\<exists>l. l \<notin> {Some ''LOW'', Some ''MEDIUM'', Some ''HIGH'', Some ''CRITICAL''} \<and>
      getMarkerColor l = getMarkerColor (Some ''LOW'') \<and>
      risk_circle_color (updateRiskGauge (Some (r\<lparr>overall_level := l\<rparr>)) s) =
        risk_circle_color (updateRiskGauge (Some (r\<lparr>overall_level := Some ''CRITICAL''\<rparr>)) s) \<and>
      getMarkerColor (Some ''LOW'') \<noteq> getMarkerColor (Some ''CRITICAL'') \<and>
      risk_circle_color (updateRiskGauge (Some (r\<lparr>overall_level := Some ''LOW''\<rparr>)) s) \<noteq>
        risk_circle_color (updateRiskGauge (Some (r\<lparr>overall_level := Some ''CRITICAL''\<rparr>)) s))"
proof -
  have a: "lvl \<notin> {Some ''CRITICAL'', Some ''HIGH'', Some ''MEDIUM''} \<longrightarrow>
      getMarkerColor lvl = ''#3cf91a'' \<and> getMarkerColor lvl = getMarkerColor (Some ''LOW'')"
    by (simp add: getMarkerColor_def)
  have b: "overall_level r \<notin> {Some ''LOW'', Some ''MEDIUM'', Some ''HIGH''} \<longrightarrow>
      risk_badge_class (updateRiskGauge (Some r) s) = Some ''card-badge badge-critical'' \<and>
      risk_circle_color (updateRiskGauge (Some r) s) = Some ''#ef4444'' \<and>
      risk_badge_class (updateRiskGauge (Some r) s) =
        risk_badge_class (updateRiskGauge (Some (r\<lparr>overall_level := Some ''CRITICAL''\<rparr>)) s) \<and>
      risk_circle_color (updateRiskGauge (Some r) s) =
        risk_circle_color (updateRiskGauge (Some (r\<lparr>overall_level := Some ''CRITICAL''\<rparr>)) s)"
    by (simp add: gauge_updateRiskGauge)
  have c: "None \<notin> {Some ''LOW'', Some ''MEDIUM'', Some ''HIGH'', Some ''CRITICAL''} \<and>
      getMarkerColor None = getMarkerColor (Some ''LOW'') \<and>
      risk_circle_color (updateRiskGauge (Some (r\<lparr>overall_level := None\<rparr>)) s) =
        risk_circle_color (updateRiskGauge (Some (r\<lparr>overall_level := Some ''CRITICAL''\<rparr>)) s) \<and>
      getMarkerColor (Some ''LOW'') \<noteq> getMarkerColor (Some ''CRITICAL'') \<and>
      risk_circle_color (updateRiskGauge (Some (r\<lparr>overall_level := Some ''LOW''\<rparr>)) s) \<noteq>
        risk_circle_color (updateRiskGauge (Some (r\<lparr>overall_level := Some ''CRITICAL''\<rparr>)) s)"
    by (simp add: gauge_updateRiskGauge getMarkerColor_def)
  from a b c show ?thesis by blast
qed

theorem risk_renderers_disagree_witness:
  "Some ''SEVERE'' \<notin> {Some ''CRITICAL'', Some ''HIGH'', Some ''MEDIUM''} \<and>
   getMarkerColor (Some ''SEVERE'') = ''#3cf91a'' \<and>
   overall_level \<lparr>overall_score = 90, overall_level = Some ''SEVERE'', high_risk_count = 3\<rparr>
     \<notin> {Some ''LOW'', Some ''MEDIUM'', Some ''HIGH''} \<and>
   risk_badge_class (updateRiskGauge
     (Some \<lparr>overall_score = 90, overall_level = Some ''SEVERE'', high_risk_count = 3\<rparr>) init_state) =
     Some ''card-badge badge-critical'' \<and>
   risk_circle_color (updateRiskGauge
     (Some \<lparr>overall_score = 90, overall_level = Some ''SEVERE'', high_risk_count = 3\<rparr>) init_state) =
     Some ''#ef4444''"
  using risk_renderers_disagree [of "Some ''SEVERE''"
    "\<lparr>overall_score = 90, overall_level = Some ''SEVERE'', high_risk_count = 3\<rparr>" init_state]
  by simp

end
